theory Spec2Isabelle
  imports Main "HOL-Library.Word"
begin

section \<open>StratoCore\_RATS: telecommand handler and flight-mode state machine\<close>

text \<open>
  A shallow embedding of \<^verbatim>\<open>src/TCHandler.cpp\<close>, \<^verbatim>\<open>src/Flight.cpp\<close> and the
  declarations of \<^verbatim>\<open>src/StratoRats.h\<close>. The instrument object is a record that every
  member function takes and returns; what a function sends to the log, to the Zephyr
  gateway, to the MCB or to the scheduler is appended to an output list of that record.
\<close>

subsection \<open>Constants of the host framework\<close>

text \<open>
  \<^verbatim>\<open>MODE_ENTRY\<close>, \<^verbatim>\<open>MODE_ERROR\<close>, \<^verbatim>\<open>MODE_SHUTDOWN\<close>, \<^verbatim>\<open>MODE_EXIT\<close> and
  \<^verbatim>\<open>STATUS_MSG_PERIOD_SECS\<close> are used by the sources but declared in headers that are
  not among them. They are parameters of the model: every function that needs one takes
  the record below.
\<close>

record StratoCore_consts =
  MODE_ENTRY :: "8 word"
  MODE_ERROR :: "8 word"
  MODE_SHUTDOWN :: "8 word"
  MODE_EXIT :: "8 word"
  STATUS_MSG_PERIOD_SECS :: nat

subsection \<open>Tunable constants (StratoRats.h)\<close>

definition RATS_REPORT_PERIOD_SECS :: nat where
  "RATS_REPORT_PERIOD_SECS = 360"

definition NUM_ECU_REPORTS :: nat where
  "NUM_ECU_REPORTS = 180"

definition RATS_HEADER_SIZE_BYTES :: nat where
  "RATS_HEADER_SIZE_BYTES = 7"

definition LORA_MSG_COUNT :: nat where
  "LORA_MSG_COUNT = 3"

definition LORA_WARMUP_MSG_TIMEOUT :: nat where
  "LORA_WARMUP_MSG_TIMEOUT = 15"

definition FLAG_STALE :: nat where
  "FLAG_STALE = 3"

definition MCB_RESEND_TIMEOUT :: nat where
  "MCB_RESEND_TIMEOUT = 10"

definition ZEPHYR_RESEND_TIMEOUT :: nat where
  "ZEPHYR_RESEND_TIMEOUT = 60"

text \<open>
  \<^verbatim>\<open>RATS_REPORT_MAX_BYTES\<close> is a macro over \<^verbatim>\<open>ECU_REPORT_SIZE_BYTES\<close>, which
  \<^verbatim>\<open>ECUReport.h\<close> defines (not among the sources): the record size is the argument.
\<close>

definition RATS_REPORT_MAX_BYTES :: "nat \<Rightarrow> nat" where
  "RATS_REPORT_MAX_BYTES ECU_REPORT_SIZE_BYTES =
     RATS_HEADER_SIZE_BYTES + (NUM_ECU_REPORTS + 1) * ECU_REPORT_SIZE_BYTES"

text \<open>
  The preprocessor check of StratoRats.h, lines 30 to 35: the translation unit is
  rejected with \<^verbatim>\<open>#error\<close> when the macro exceeds 8192; otherwise the header is
  accepted and the macro has its value.
\<close>

datatype build_error = RATS_REPORT_MAX_BYTES_exceeds_TM_message_buffer_size

definition report_size_check :: "nat \<Rightarrow> build_error + nat" where
  "report_size_check ECU_REPORT_SIZE_BYTES =
     (if RATS_REPORT_MAX_BYTES ECU_REPORT_SIZE_BYTES > 8192
      then Inl RATS_REPORT_MAX_BYTES_exceeds_TM_message_buffer_size
      else Inr (RATS_REPORT_MAX_BYTES ECU_REPORT_SIZE_BYTES))"

subsection \<open>Enumerations\<close>

text \<open>
  \<^verbatim>\<open>ScheduleAction_t\<close>: the enumerators of StratoRats.h, lines 71 to 92, and the three
  further ones that Flight.cpp uses (\<^verbatim>\<open>ACTION_SEND_STATUS\<close>, \<^verbatim>\<open>ACTION_SIM_LORA_MSG\<close>,
  \<^verbatim>\<open>ACTION_LORA_WAIT_MSG\<close>). The action flag table is indexed by this type.
\<close>

datatype ScheduleAction_t =
    NO_ACTION
  | SEND_IMR
  | RESEND_RA
  | RESEND_MOTION_COMMAND
  | RESEND_TM
  | RESEND_SAFETY
  | ACTION_START_TELEMETRY
  | ACTION_GPS_WAIT_MSG
  | ACTION_LORA_COUNT_MSGS
  | ACTION_RATS_REPORT
  | ACTION_REEL_OUT
  | ACTION_REEL_IN
  | ACTION_IN_NO_LW
  | ACTION_MOTION_STOP
  | ACTION_MOTION_TIMEOUT
  | ACTION_SEND_STATUS
  | ACTION_SIM_LORA_MSG
  | ACTION_LORA_WAIT_MSG

datatype MCBMotion_t = NO_MOTION | MOTION_REEL_IN | MOTION_REEL_OUT | MOTION_IN_NO_LW

datatype WarmupStatus_t = WARMUP_NOT_STARTED | WARMUP_INPROCESS | WARMUP_FAILED | WARMUP_COMPLETE

text \<open>
  The telecommands that \<^verbatim>\<open>TCHandler\<close> names in its switch; \<open>OtherTC n\<close> is any other
  value \<open>n\<close> of the framework's \<^verbatim>\<open>Telecommand_t\<close>, which the switch sends to
  \<^verbatim>\<open>default\<close>.
\<close>

datatype Telecommand_t =
    DEPLOYx | DEPLOYv | DEPLOYa
  | RETRACTx | RETRACTv | RETRACTa
  | FULLRETRACT | CANCELMOTION | ZEROREEL
  | TORQUELIMITS | CURRLIMITS | IGNORELIMITS | USELIMITS
  | GETMCBEEPROM | GETMCBVOLTS
  | RATSDATAPROCTYPE | RATSREALTIMEMCBON | RATSREALTIMEMCBOFF | RATSGETEEPROM
  | OtherTC "8 word"

text \<open>
  \<^verbatim>\<open>LOG_LEVEL_t\<close>: the three levels the handler names, and \<open>LOG_OTHER\<close> for whatever
  else the enumeration holds (the \<^verbatim>\<open>default\<close> of the second switch).
\<close>

datatype LOG_LEVEL_t = LOG_DEBUG | LOG_NOMINAL | LOG_ERROR | LOG_OTHER

datatype MCBMessages_t =
    MCB_CANCEL_MOTION | MCB_ZERO_REEL | MCB_IGNORE_LIMITS | MCB_USE_LIMITS
  | MCB_GET_EEPROM | MCB_GET_VOLTAGES

subsection \<open>Values, messages and outputs\<close>

text \<open>
  A \<^verbatim>\<open>float\<close> is only ever copied and printed by the modelled code, so it is kept as
  its 32-bit pattern. A message is the list of the pieces the source concatenates; the
  pieces that Arduino's \<^verbatim>\<open>String(...)\<close> would render are kept as values.
\<close>

type_synonym float32 = "32 word"

datatype piece =
    Txt string
  | StrTC Telecommand_t  \<comment> \<open>\<^verbatim>\<open>String(telecommand)\<close>\<close>
  | StrF float32         \<comment> \<open>\<^verbatim>\<open>String(f)\<close>\<close>
  | StrF1 float32        \<comment> \<open>\<^verbatim>\<open>String(f, 1)\<close>\<close>
  | StrU8 "8 word"       \<comment> \<open>\<^verbatim>\<open>String(n)\<close>\<close>

type_synonym message = "piece list"

datatype mcb_tx =
    TX_Out_Acc float32
  | TX_In_Acc float32
  | TX_Torque_Limits float32 float32
  | TX_Curr_Limits float32 float32
  | TX_ASCII MCBMessages_t

text \<open>
  Telemetry messages handed to the Zephyr gateway: the two summary kinds of
  \<^verbatim>\<open>TCHandler\<close>, the status message, the EEPROM dump and the RATS report
  (\<^verbatim>\<open>ratsReportTM\<close>).
\<close>

datatype telemetry =
    ZephyrLogFine message
  | ZephyrLogWarn message
  | StatusTM "8 word"
  | RATSEEPROM_TM
  | RATSReportTM

record MCBParam_t =
  deployLen :: float32
  deployVel :: float32
  deployAcc :: float32
  retractLen :: float32
  retractVel :: float32
  retractAcc :: float32
  torqueLimits :: "float32 \<times> float32"
  currLimits :: "float32 \<times> float32"

record RATSParam_t =
  param_data_proc_method :: "8 word"

record RATSConfigs =
  deploy_velocity :: float32
  retract_velocity :: float32
  data_proc_method :: "8 word"
  real_time_mcb :: bool

text \<open>
  Modelled from the spec: \<^verbatim>\<open>ActionFlag_t\<close> is declared outside the sources; section 3
  of the specification gives an entry as \<open>{raised: bool, stale_counter: int}\<close>.
\<close>

record ActionFlag_t =
  raised :: bool
  stale_counter :: nat

subsection \<open>The instrument object\<close>

record StratoRATS =
  inst_substate :: "8 word"
  flight_mode_substate :: "8 word"
  time_valid :: bool
  action_flags :: "ScheduleAction_t \<Rightarrow> ActionFlag_t"
  total_lora_count :: "32 word"
  lora_count :: "32 word"
  deploy_length :: float32
  retract_length :: float32
  mcb_motion_ongoing :: bool
  mcb_motion :: MCBMotion_t
  mcbParam :: MCBParam_t
  ratsParam :: RATSParam_t
  ratsConfigs :: RATSConfigs
  scheduled :: "(ScheduleAction_t \<times> nat) list"  \<comment> \<open>calls of \<^verbatim>\<open>scheduler.AddAction\<close>\<close>
  log_out :: "(LOG_LEVEL_t \<times> message) list"      \<comment> \<open>lines of the StratoCore log\<close>
  tm_out :: "telemetry list"                        \<comment> \<open>telemetry sent to Zephyr\<close>
  mcb_out :: "mcb_tx list"                          \<comment> \<open>transmissions to the MCB\<close>

subsection \<open>The flight sub-states\<close>

text \<open>
  \<^verbatim>\<open>FLStates_t\<close> is declared twice: inside the class in StratoRats.h, lines 169 to 178
  (\<^verbatim>\<open>FL_ENTRY = MODE_ENTRY, FL_GPS_WAIT, FL_WARMUP, FL_MEASURE, FL_REEL, ...\<close>, ``moved
  from Flight.cpp to here so that TCHandler() can use them to vet TCs''), and at the top
  of Flight.cpp, lines 3 to 19, with the sub-states that the switches of \<^verbatim>\<open>FlightMode\<close>
  and \<^verbatim>\<open>ManualFlight\<close> name. \<^verbatim>\<open>TCHandler\<close>, \<^verbatim>\<open>FlightMode\<close> and \<^verbatim>\<open>ManualFlight\<close>
  are all members of \<^verbatim>\<open>StratoRATS\<close>, so an unqualified \<^verbatim>\<open>FL_MEASURE\<close> is the same
  enumerator in the three of them: what Flight.cpp stores at lines 94 and 122 is what
  TCHandler.cpp tests at lines 14 and 35. The two lists cannot be in force together
  (\<^verbatim>\<open>case FL_MEASURE\<close> would repeat the value of \<^verbatim>\<open>case FL_CONFIG_ECU\<close>), so the model
  has one enumeration, used by the handler and by the flight machine alike: the list of
  Flight.cpp, the one that has every sub-state the switches name.
\<close>

definition FL_ENTRY :: "StratoCore_consts \<Rightarrow> 8 word" where
  "FL_ENTRY K = MODE_ENTRY K"

definition FL_GPS_WAIT :: "StratoCore_consts \<Rightarrow> 8 word" where
  "FL_GPS_WAIT K = MODE_ENTRY K + 1"

definition FL_LORA_WAIT1 :: "StratoCore_consts \<Rightarrow> 8 word" where
  "FL_LORA_WAIT1 K = MODE_ENTRY K + 2"

definition FL_CONFIG_ECU :: "StratoCore_consts \<Rightarrow> 8 word" where
  "FL_CONFIG_ECU K = MODE_ENTRY K + 3"

definition FL_LORA_WAIT2 :: "StratoCore_consts \<Rightarrow> 8 word" where
  "FL_LORA_WAIT2 K = MODE_ENTRY K + 4"

definition FL_MEASURE :: "StratoCore_consts \<Rightarrow> 8 word" where
  "FL_MEASURE K = MODE_ENTRY K + 5"

definition FL_SEND_TELEMETRY :: "StratoCore_consts \<Rightarrow> 8 word" where
  "FL_SEND_TELEMETRY K = MODE_ENTRY K + 6"

definition FLM_IDLE :: "StratoCore_consts \<Rightarrow> 8 word" where
  "FLM_IDLE K = MODE_ENTRY K + 7"

definition FLM_MANUAL_MOTION :: "StratoCore_consts \<Rightarrow> 8 word" where
  "FLM_MANUAL_MOTION K = MODE_ENTRY K + 8"

definition FL_ERROR :: "StratoCore_consts \<Rightarrow> 8 word" where
  "FL_ERROR K = MODE_ERROR K"

definition FL_SHUTDOWN :: "StratoCore_consts \<Rightarrow> 8 word" where
  "FL_SHUTDOWN K = MODE_SHUTDOWN K"

definition FL_EXIT :: "StratoCore_consts \<Rightarrow> 8 word" where
  "FL_EXIT K = MODE_EXIT K"

subsection \<open>Helpers declared in StratoRats.h and defined outside the sources\<close>

text \<open>
  The calls that leave the instrument are recorded, in the order they are made:
  \<^verbatim>\<open>log_debug\<close>, \<^verbatim>\<open>log_nominal\<close> and \<^verbatim>\<open>log_error\<close> as a line with its level,
  \<^verbatim>\<open>ZephyrLogFine\<close>, \<^verbatim>\<open>ZephyrLogWarn\<close> and the other telemetry as a message to Zephyr,
  the calls of \<^verbatim>\<open>mcbComm\<close> as a transmission, and \<^verbatim>\<open>scheduler.AddAction(a, secs)\<close> as
  the pair of the action and its delay in seconds.
\<close>

definition log_line :: "LOG_LEVEL_t \<Rightarrow> message \<Rightarrow> StratoRATS \<Rightarrow> StratoRATS" where
  "log_line lvl m s = s\<lparr>log_out := log_out s @ [(lvl, m)]\<rparr>"

definition send_tm :: "telemetry \<Rightarrow> StratoRATS \<Rightarrow> StratoRATS" where
  "send_tm t s = s\<lparr>tm_out := tm_out s @ [t]\<rparr>"

definition mcb_send :: "mcb_tx \<Rightarrow> StratoRATS \<Rightarrow> StratoRATS" where
  "mcb_send t s = s\<lparr>mcb_out := mcb_out s @ [t]\<rparr>"

definition AddAction :: "ScheduleAction_t \<Rightarrow> nat \<Rightarrow> StratoRATS \<Rightarrow> StratoRATS" where
  "AddAction a secs s = s\<lparr>scheduled := scheduled s @ [(a, secs)]\<rparr>"

text \<open>
  Modelled from the spec: \<^verbatim>\<open>SetAction\<close> is defined outside the sources. Section 3:
  ``Raising sets raised=true, stale\_counter=FLAG\_STALE''; section 4.A: ``if the flag was
  already raised and unconsumed, retains staleness window''.
\<close>

definition SetAction :: "ScheduleAction_t \<Rightarrow> StratoRATS \<Rightarrow> StratoRATS" where
  "SetAction a s =
     (if raised (action_flags s a) then s
      else s\<lparr>action_flags := (action_flags s)(a := \<lparr>raised = True, stale_counter = FLAG_STALE\<rparr>)\<rparr>)"

text \<open>
  Modelled from the spec: \<^verbatim>\<open>CheckAction\<close> is defined outside the sources. Section 4.A:
  ``check\_and\_clear(action): returns prior state and clears''.
\<close>

definition CheckAction :: "ScheduleAction_t \<Rightarrow> StratoRATS \<Rightarrow> bool \<times> StratoRATS" where
  "CheckAction a s =
     (raised (action_flags s a),
      s\<lparr>action_flags := (action_flags s)(a := (action_flags s a)\<lparr>raised := False\<rparr>)\<rparr>)"

text \<open>
  Modelled from the spec: \<^verbatim>\<open>SendRATSEEPROM\<close> is defined outside the sources. Section
  4.G: ``GET\_RATS\_EEPROM: emit EEPROM TM''.
\<close>

definition SendRATSEEPROM :: "StratoRATS \<Rightarrow> StratoRATS" where
  "SendRATSEEPROM s = send_tm RATSEEPROM_TM s"

subsection \<open>TCHandler.cpp\<close>

text \<open>
  The first switch of \<^verbatim>\<open>TCHandler\<close> (lines 10 to 143): it returns the summary message,
  the summary level and the object. \<open>tx_ok\<close> is what the MCB driver's transmit call
  returns in this dispatch (\<^verbatim>\<open>TX_Out_Acc\<close>, \<^verbatim>\<open>TX_In_Acc\<close>, \<^verbatim>\<open>TX_Torque_Limits\<close>,
  \<^verbatim>\<open>TX_Curr_Limits\<close>).
\<close>

definition TC_switch ::
  "StratoCore_consts \<Rightarrow> bool \<Rightarrow> Telecommand_t \<Rightarrow> StratoRATS \<Rightarrow> message \<times> LOG_LEVEL_t \<times> StratoRATS"
where
  "TC_switch K tx_ok telecommand s =
    (case telecommand of
      DEPLOYx \<Rightarrow>
        (if inst_substate s = FL_MEASURE K then
           (let s1 = s\<lparr>deploy_length := deployLen (mcbParam s)\<rparr>
            in ([Txt ''TC Deploy Length'', Txt '': '', StrF1 (deploy_length s1), Txt '' revs''],
                LOG_NOMINAL, SetAction ACTION_REEL_OUT s1))
         else ([Txt ''Cannot deploy, not in FL_MEASURE''], LOG_ERROR, s))
    | DEPLOYv \<Rightarrow>
        ([Txt ''TC Deploy Velocity: '', StrF (deployVel (mcbParam s))], LOG_NOMINAL,
         s\<lparr>ratsConfigs := (ratsConfigs s)\<lparr>deploy_velocity := deployVel (mcbParam s)\<rparr>\<rparr>)
    | DEPLOYa \<Rightarrow>
        (if \<not> tx_ok then [Txt ''Error sending deploy acc to MCB'']
         else [Txt ''TC Deploy Acceleration: '', StrF (deployAcc (mcbParam s))],
         LOG_NOMINAL, mcb_send (TX_Out_Acc (deployAcc (mcbParam s))) s)
    | RETRACTx \<Rightarrow>
        (if inst_substate s = FL_MEASURE K then
           (let s1 = SetAction ACTION_REEL_IN (s\<lparr>retract_length := retractLen (mcbParam s)\<rparr>)
            in ([Txt ''TC Retract Length'', Txt '': '', StrF1 (retract_length s1), Txt '' revs''],
                LOG_NOMINAL, s1))
         else ([Txt ''Cannot retract, not in FL_MEASURE''], LOG_ERROR, s))
    | RETRACTv \<Rightarrow>
        ([Txt ''TC Retract Velocity: '', StrF (retractVel (mcbParam s))], LOG_NOMINAL,
         s\<lparr>ratsConfigs := (ratsConfigs s)\<lparr>retract_velocity := retractVel (mcbParam s)\<rparr>\<rparr>)
    | RETRACTa \<Rightarrow>
        (if \<not> tx_ok then [Txt ''Error sending retract acc to MCB'']
         else [Txt ''TC Retract Acceleration: '', StrF (retractAcc (mcbParam s))],
         LOG_NOMINAL, mcb_send (TX_In_Acc (retractAcc (mcbParam s))) s)
    | FULLRETRACT \<Rightarrow> ([Txt ''TC Full Retract''], LOG_NOMINAL, s)
    | CANCELMOTION \<Rightarrow>
        ([Txt ''TC Cancel Motion''], LOG_NOMINAL,
         SetAction ACTION_MOTION_STOP (mcb_send (TX_ASCII MCB_CANCEL_MOTION) s))
    | ZEROREEL \<Rightarrow>
        (if mcb_motion_ongoing s then ([Txt ''Can't zero reel, motion ongoing''], LOG_ERROR, s)
         else ([Txt ''TC Zero Reel''], LOG_NOMINAL, mcb_send (TX_ASCII MCB_ZERO_REEL) s))
    | TORQUELIMITS \<Rightarrow>
        (let s1 = mcb_send (TX_Torque_Limits (fst (torqueLimits (mcbParam s)))
                                             (snd (torqueLimits (mcbParam s)))) s
         in if \<not> tx_ok then ([Txt ''Error sending torque limits to MCB''], LOG_ERROR, s1)
            else ([Txt ''TC Torque Limits''], LOG_NOMINAL, s1))
    | CURRLIMITS \<Rightarrow>
        (let s1 = mcb_send (TX_Curr_Limits (fst (currLimits (mcbParam s)))
                                           (snd (currLimits (mcbParam s)))) s
         in if \<not> tx_ok then ([Txt ''Error sending curr limits to MCB''], LOG_ERROR, s1)
            else ([Txt ''TC Current Limits''], LOG_NOMINAL, s1))
    | IGNORELIMITS \<Rightarrow> ([Txt ''TC Ignore Limits''], LOG_NOMINAL, mcb_send (TX_ASCII MCB_IGNORE_LIMITS) s)
    | USELIMITS \<Rightarrow> ([Txt ''TC Use Limits''], LOG_NOMINAL, mcb_send (TX_ASCII MCB_USE_LIMITS) s)
    | GETMCBEEPROM \<Rightarrow>
        (if mcb_motion_ongoing s
         then ([Txt ''Motion ongoing, request MCB EEPROM later''], LOG_ERROR, s)
         else ([Txt ''TC get MCB EEPROM''], LOG_NOMINAL, mcb_send (TX_ASCII MCB_GET_EEPROM) s))
    | GETMCBVOLTS \<Rightarrow>
        ([Txt ''TC get MCB voltages''], LOG_NOMINAL, mcb_send (TX_ASCII MCB_GET_VOLTAGES) s)
    | RATSDATAPROCTYPE \<Rightarrow>
        ([Txt ''TC set processing mode'', StrU8 (param_data_proc_method (ratsParam s))], LOG_NOMINAL,
         s\<lparr>ratsConfigs := (ratsConfigs s)\<lparr>data_proc_method := param_data_proc_method (ratsParam s)\<rparr>\<rparr>)
    | RATSREALTIMEMCBON \<Rightarrow>
        (if mcb_motion_ongoing s
         then ([Txt ''Cannot start real-time MCB mode, motion ongoing''], LOG_ERROR, s)
         else ([Txt ''Enabled real-time MCB mode''], LOG_NOMINAL,
               s\<lparr>ratsConfigs := (ratsConfigs s)\<lparr>real_time_mcb := True\<rparr>\<rparr>))
    | RATSREALTIMEMCBOFF \<Rightarrow>
        (if mcb_motion_ongoing s
         then ([Txt ''Cannot start real-time MCB mode, motion ongoing''], LOG_ERROR, s)
         else ([Txt ''Disabled real-time MCB mode''], LOG_NOMINAL,
               s\<lparr>ratsConfigs := (ratsConfigs s)\<lparr>real_time_mcb := False\<rparr>\<rparr>))
    | RATSGETEEPROM \<Rightarrow>
        (if mcb_motion_ongoing s
         then ([Txt ''Motion ongoing, request RATS EEPROM later''], LOG_ERROR, s)
         else ([Txt ''TC get RATS EEPROM''], LOG_NOMINAL, SendRATSEEPROM s))
    | OtherTC n \<Rightarrow>
        ([Txt ''Unknown TC '', StrTC telecommand, Txt '' received''], LOG_ERROR, s))"

text \<open>
  The second switch (lines 145 to 161): the summary goes to the StratoCore log and, but
  for \<^verbatim>\<open>LOG_DEBUG\<close>, to Zephyr as a telemetry message.
\<close>

definition TC_summary :: "LOG_LEVEL_t \<Rightarrow> message \<Rightarrow> StratoRATS \<Rightarrow> StratoRATS" where
  "TC_summary summary_level m s =
    (case summary_level of
      LOG_DEBUG \<Rightarrow> log_line LOG_DEBUG m s
    | LOG_NOMINAL \<Rightarrow> send_tm (ZephyrLogFine m) (log_line LOG_NOMINAL m s)
    | LOG_ERROR \<Rightarrow> send_tm (ZephyrLogWarn m) (log_line LOG_ERROR m s)
    | LOG_OTHER \<Rightarrow> send_tm (ZephyrLogWarn m) (log_line LOG_ERROR m s))"

definition TCHandler ::
  "StratoCore_consts \<Rightarrow> bool \<Rightarrow> Telecommand_t \<Rightarrow> StratoRATS \<Rightarrow> bool \<times> StratoRATS"
where
  "TCHandler K tx_ok telecommand s =
    (case TC_switch K tx_ok telecommand s of
       (m, summary_level, s1) \<Rightarrow> (True, TC_summary summary_level m s1))"

subsection \<open>Further helpers of Flight.cpp that are defined outside the sources\<close>

text \<open>
  \<^verbatim>\<open>lora_count_check\<close>, as StratoRats.h documents it (lines 225 to 229): ``If reset is
  set, the count is set to 0. Return the current count. Uses the global variable
  lora\_count.''
\<close>

definition lora_count_check :: "bool \<Rightarrow> StratoRATS \<Rightarrow> 32 word \<times> StratoRATS" where
  "lora_count_check reset s =
     (let s1 = (if reset then s\<lparr>lora_count := 0\<rparr> else s) in (lora_count s1, s1))"

text \<open>
  Modelled from the spec: \<^verbatim>\<open>statusMsgCheck\<close> is defined outside the sources. Section
  4.H: ``Every STATUS\_MSG\_PERIOD\_SECS (scheduler-gated via the SEND\_STATUS action), emits
  a short TM containing the current sub-state [...]. The emitter re-schedules itself as
  a post-condition of its own run.''
\<close>

definition statusMsgCheck :: "nat \<Rightarrow> StratoRATS \<Rightarrow> StratoRATS" where
  "statusMsgCheck period s =
     (case CheckAction ACTION_SEND_STATUS s of
        (due, s1) \<Rightarrow>
          if due then AddAction ACTION_SEND_STATUS period (send_tm (StatusTM (flight_mode_substate s1)) s1)
          else s1)"

text \<open>
  \<^verbatim>\<open>Flight_ManualMotion\<close> (the reel motion sub-machine) and \<^verbatim>\<open>RATS_Shutdown\<close> are
  defined outside the sources and the flight machine only calls them: they are
  parameters, arbitrary functions on the object. \<^verbatim>\<open>Flight_ManualMotion(restart)\<close>
  returns whether the motion has completed.
\<close>

record hooks =
  Flight_ManualMotion :: "bool \<Rightarrow> StratoRATS \<Rightarrow> bool \<times> StratoRATS"
  RATS_Shutdown :: "StratoRATS \<Rightarrow> StratoRATS"

subsection \<open>Flight.cpp\<close>

text \<open>
  The block that starts a manual motion occurs four times in Flight.cpp (lines 106 to
  110, 112 to 116, 153 to 157 and 159 to 163), with the motion kind and the first log
  line as its only variation.
\<close>

definition manual_command ::
  "StratoCore_consts \<Rightarrow> hooks \<Rightarrow> string \<Rightarrow> MCBMotion_t \<Rightarrow> StratoRATS \<Rightarrow> StratoRATS"
where
  "manual_command K H line kind s =
     (let s1 = log_line LOG_NOMINAL [Txt line] s;
          s2 = s1\<lparr>mcb_motion := kind\<rparr>;
          s3 = snd (Flight_ManualMotion H True s2);
          s4 = s3\<lparr>inst_substate := FLM_MANUAL_MOTION K\<rparr>
      in log_line LOG_NOMINAL [Txt ''Entering FLM_MANUAL_MOTION''] s4)"

definition ManualFlight :: "StratoCore_consts \<Rightarrow> hooks \<Rightarrow> StratoRATS \<Rightarrow> StratoRATS" where
  "ManualFlight K H s =
    (if inst_substate s = FLM_IDLE K then
       (case CheckAction ACTION_REEL_IN (log_line LOG_DEBUG [Txt ''FL Manual Idle''] s) of
          (reel_in, s1) \<Rightarrow>
            if reel_in then manual_command K H ''Reel in manual command'' MOTION_REEL_IN s1
            else (case CheckAction ACTION_REEL_OUT s1 of
                    (reel_out, s2) \<Rightarrow>
                      if reel_out then manual_command K H ''Reel out manual command'' MOTION_REEL_OUT s2
                      else s2))
     else if inst_substate s = FLM_MANUAL_MOTION K then
       (case Flight_ManualMotion H False s of
          (finished, s1) \<Rightarrow>
            if finished
            then log_line LOG_NOMINAL [Txt ''Entering FLM_IDLE''] (s1\<lparr>inst_substate := FLM_IDLE K\<rparr>)
            else s1)
     else log_line LOG_ERROR [Txt ''Unknown manual substate''] s)"

text \<open>
  The gate of \<^verbatim>\<open>FL_LORA_WAIT1\<close> and \<^verbatim>\<open>FL_LORA_WAIT2\<close>: the unsigned 32-bit count
  against \<^verbatim>\<open>LORA_MSG_COUNT\<close>.
\<close>

definition lora_gate :: "32 word \<Rightarrow> bool" where
  "lora_gate n = (LORA_MSG_COUNT \<le> unat n)"

text \<open>
  The two statements of \<^verbatim>\<open>FlightMode\<close> before its switch (lines 32 and 36): the status
  check, and the copy of the sub-state for the status message.
\<close>

definition status_and_copy :: "StratoCore_consts \<Rightarrow> StratoRATS \<Rightarrow> StratoRATS" where
  "status_and_copy K s0 =
     (let sa = statusMsgCheck (STATUS_MSG_PERIOD_SECS K) s0
      in sa\<lparr>flight_mode_substate := inst_substate sa\<rparr>)"

text \<open>\<^verbatim>\<open>FlightMode\<close>: the switch, its cases in the order of the source.\<close>

definition FlightMode :: "StratoCore_consts \<Rightarrow> hooks \<Rightarrow> StratoRATS \<Rightarrow> StratoRATS" where
  "FlightMode K H s0 =
    (let s = status_and_copy K s0
     in
     if inst_substate s = FL_ENTRY K then
       (let s1 = log_line LOG_NOMINAL [Txt ''Entering FL''] s;
            s2 = AddAction ACTION_SEND_STATUS 1 s1;
            s3 = AddAction ACTION_SIM_LORA_MSG 30 s2;
            s4 = AddAction ACTION_GPS_WAIT_MSG 5 s3;
            s5 = s4\<lparr>inst_substate := FL_GPS_WAIT K\<rparr>
        in log_line LOG_NOMINAL [Txt ''Entering FL_GPS_WAIT''] s5)
     else if inst_substate s = FL_GPS_WAIT K then
       (case CheckAction ACTION_GPS_WAIT_MSG s of
          (due, s1) \<Rightarrow>
            (let s2 = (if due
                       then AddAction ACTION_GPS_WAIT_MSG 5
                              (log_line LOG_NOMINAL [Txt ''FL_GPS_WAIT waiting for GPS Time''] s1)
                       else s1)
             in if time_valid s2 then
                  (let s3 = AddAction ACTION_LORA_WAIT_MSG 1 s2;
                       s4 = snd (lora_count_check True s3);
                       s5 = s4\<lparr>inst_substate := FL_LORA_WAIT1 K\<rparr>
                   in log_line LOG_NOMINAL [Txt ''Entering FL_LORA_WAIT1''] s5)
                else s2))
     else if inst_substate s = FL_LORA_WAIT1 K then
       (case CheckAction ACTION_LORA_WAIT_MSG s of
          (due, s1) \<Rightarrow>
            if due then
              (let s2 = log_line LOG_NOMINAL [Txt ''FL_LORA_WAIT waiting for LoRa message''] s1;
                   s3 = AddAction ACTION_LORA_WAIT_MSG 1 s2
               in case lora_count_check False s3 of
                    (n, s4) \<Rightarrow>
                      if lora_gate n then
                        (let s5 = log_line LOG_NOMINAL [Txt ''FL_LORA_WAIT LoRa messages received''] s4;
                             s6 = s5\<lparr>inst_substate := FL_CONFIG_ECU K\<rparr>
                         in log_line LOG_NOMINAL [Txt ''Entering FL_CONFIG_ECU''] s6)
                      else s4)
            else s1)
     else if inst_substate s = FL_CONFIG_ECU K then
       (let s1 = s\<lparr>inst_substate := FL_LORA_WAIT2 K\<rparr>;
            s2 = snd (lora_count_check True s1)
        in log_line LOG_NOMINAL [Txt ''Entering FL_LORA_WAIT2''] s2)
     else if inst_substate s = FL_LORA_WAIT2 K then
       (case CheckAction ACTION_LORA_WAIT_MSG s of
          (due, s1) \<Rightarrow>
            if due then
              (let s2 = log_line LOG_NOMINAL [Txt ''FL_LORA_WAIT waiting for LoRa message''] s1;
                   s3 = AddAction ACTION_LORA_WAIT_MSG 1 s2
               in case lora_count_check False s3 of
                    (n, s4) \<Rightarrow>
                      if lora_gate n then
                        (let s5 = log_line LOG_NOMINAL [Txt ''FL_LORA_WAIT LoRa messages received''] s4;
                             s6 = AddAction ACTION_START_TELEMETRY 0 s5;
                             s7 = s6\<lparr>inst_substate := FL_MEASURE K\<rparr>
                         in log_line LOG_NOMINAL [Txt ''Entering FL_MEASURE''] s7)
                      else s4)
            else s1)
     else if inst_substate s = FL_MEASURE K then
       (case CheckAction ACTION_START_TELEMETRY s of
          (start, s1) \<Rightarrow>
            if start then
              log_line LOG_NOMINAL [Txt ''Entering FL_SEND_TELEMETRY'']
                (s1\<lparr>inst_substate := FL_SEND_TELEMETRY K\<rparr>)
            else
              log_line LOG_DEBUG [Txt ''FL Measure'']
                (case CheckAction ACTION_REEL_OUT s1 of
                   (reel_out, s2) \<Rightarrow>
                     if reel_out then manual_command K H ''Reel out manual command'' MOTION_REEL_OUT s2
                     else (case CheckAction ACTION_REEL_IN s2 of
                             (reel_in, s3) \<Rightarrow>
                               if reel_in
                               then manual_command K H ''Reel in manual command'' MOTION_REEL_IN s3
                               else s3)))
     else if inst_substate s = FL_SEND_TELEMETRY K then
       (let s1 = s\<lparr>inst_substate := FL_MEASURE K\<rparr>;
            s2 = AddAction ACTION_START_TELEMETRY 60 s1
        in log_line LOG_NOMINAL [Txt ''Entering FL_MEASURE''] s2)
     else if inst_substate s = FL_ERROR K then
       log_line LOG_DEBUG [Txt ''In Error Sub State''] (RATS_Shutdown H s)
     else if inst_substate s = FL_SHUTDOWN K then
       log_line LOG_NOMINAL [Txt ''Shutdown warning received in FL''] (RATS_Shutdown H s)
     else if inst_substate s = FL_EXIT K then
       log_line LOG_NOMINAL [Txt ''Exiting FL''] (RATS_Shutdown H s)
     else ManualFlight K H s)"

subsection \<open>The main loop around the flight machine\<close>

text \<open>
  Modelled from the spec: \<^verbatim>\<open>LoRaRX\<close> is defined outside the sources. Section 4.E: ``if
  [a message is] present, [...] increment total\_lora\_count and warmup\_lora\_count''; at
  most one message is consumed per tick. Both counters are \<^verbatim>\<open>uint32_t\<close> and wrap.
\<close>

definition LoRaRX :: "bool \<Rightarrow> StratoRATS \<Rightarrow> StratoRATS" where
  "LoRaRX msg_present s =
     (if msg_present
      then s\<lparr>total_lora_count := total_lora_count s + 1, lora_count := lora_count s + 1\<rparr>
      else s)"

text \<open>
  Modelled from the spec: \<^verbatim>\<open>WatchFlags\<close> is defined outside the sources. Section 3:
  ``On every tick, unconsumed flags have stale\_counter decremented; at zero the flag is
  forcibly cleared and logged.'' The log line of a forced clear is left out: the
  specification gives neither its level nor its text.
\<close>

definition decay :: "ActionFlag_t \<Rightarrow> ActionFlag_t" where
  "decay f =
     (if raised f
      then (if stale_counter f - 1 = 0 then \<lparr>raised = False, stale_counter = 0\<rparr>
            else f\<lparr>stale_counter := stale_counter f - 1\<rparr>)
      else f)"

definition WatchFlags :: "StratoRATS \<Rightarrow> StratoRATS" where
  "WatchFlags s = s\<lparr>action_flags := (\<lambda>a. decay (action_flags s a))\<rparr>"

text \<open>
  What reaches the instrument in one pass of the main loop, telecommands and MCB
  traffic apart: whether a LoRa message is waiting, whether the framework has received a
  GPS time message (it then sets \<^verbatim>\<open>time_valid\<close>), and the actions whose deadline the
  scheduler finds due (the action handler raises their flags).
\<close>

record tick_in =
  lora_msg_present :: bool
  gps_time_received :: bool
  fired :: "ScheduleAction_t list"

text \<open>
  Modelled from the spec: the loop itself is defined outside the sources. Section 5
  gives the order within a tick: LoRa poll, scheduler tick, state-machine tick, flag
  staleness decay. \<open>arrive\<close> is the object as the flight machine finds it.
\<close>

definition arrive :: "tick_in \<Rightarrow> StratoRATS \<Rightarrow> StratoRATS" where
  "arrive i s =
     (let s1 = LoRaRX (lora_msg_present i) s;
          s2 = (if gps_time_received i then s1\<lparr>time_valid := True\<rparr> else s1)
      in fold SetAction (fired i) s2)"

definition loop_tick :: "StratoCore_consts \<Rightarrow> hooks \<Rightarrow> tick_in \<Rightarrow> StratoRATS \<Rightarrow> StratoRATS" where
  "loop_tick K H i s = WatchFlags (FlightMode K H (arrive i s))"

fun run :: "StratoCore_consts \<Rightarrow> hooks \<Rightarrow> tick_in list \<Rightarrow> StratoRATS \<Rightarrow> StratoRATS" where
  "run K H [] s = s"
| "run K H (i # ins) s = run K H ins (loop_tick K H i s)"

text \<open>The sub-state after each tick of a run.\<close>

fun substate_trace :: "StratoCore_consts \<Rightarrow> hooks \<Rightarrow> tick_in list \<Rightarrow> StratoRATS \<Rightarrow> 8 word list" where
  "substate_trace K H [] s = []"
| "substate_trace K H (i # ins) s =
     inst_substate (loop_tick K H i s) # substate_trace K H ins (loop_tick K H i s)"

text \<open>The number of ticks of an input list on which a LoRa message arrives.\<close>

definition msgs :: "tick_in list \<Rightarrow> nat" where
  "msgs w = length (filter lora_msg_present w)"

subsection \<open>Telecommands between the ticks\<close>

text \<open>
  What happens to the object over time: a telecommand is dispatched (the framework has
  stored its parameters in \<^verbatim>\<open>mcbParam\<close> and \<^verbatim>\<open>ratsParam\<close>, and the MCB driver answers
  \<open>tx_ok\<close>), or the main loop makes a pass. Section 5 of the specification has the
  telecommand poll between the LoRa poll and the scheduler tick of a pass; the handler
  neither reads nor writes what the LoRa poll and the GPS message change, so a dispatch
  inside a pass is the dispatch followed by the pass.
\<close>

datatype event =
    Telecommand MCBParam_t RATSParam_t bool Telecommand_t
  | Tick tick_in

fun step :: "StratoCore_consts \<Rightarrow> hooks \<Rightarrow> event \<Rightarrow> StratoRATS \<Rightarrow> StratoRATS" where
  "step K H (Telecommand mp rp tx_ok tc) s =
     snd (TCHandler K tx_ok tc (s\<lparr>mcbParam := mp, ratsParam := rp\<rparr>))"
| "step K H (Tick i) s = loop_tick K H i s"

fun execute :: "StratoCore_consts \<Rightarrow> hooks \<Rightarrow> event list \<Rightarrow> StratoRATS \<Rightarrow> StratoRATS" where
  "execute K H [] s = s"
| "execute K H (e # es) s = execute K H es (step K H e s)"

subsection \<open>Notions used in the statements\<close>

text \<open>A summary message of the telecommand handler, as opposed to other telemetry.\<close>

definition is_summary :: "telemetry \<Rightarrow> bool" where
  "is_summary t = (case t of ZephyrLogFine m \<Rightarrow> True | ZephyrLogWarn m \<Rightarrow> True | _ \<Rightarrow> False)"

text \<open>
  The switch of \<^verbatim>\<open>FlightMode\<close> sends a sub-state to \<^verbatim>\<open>ManualFlight\<close> only through its
  \<^verbatim>\<open>default\<close>: the two manual sub-states get there when the framework's three special
  values differ from them.
\<close>

definition manual_states_dispatched :: "StratoCore_consts \<Rightarrow> bool" where
  "manual_states_dispatched K =
     (FLM_IDLE K \<notin> {FL_ERROR K, FL_SHUTDOWN K, FL_EXIT K} \<and>
      FLM_MANUAL_MOTION K \<notin> {FL_ERROR K, FL_SHUTDOWN K, FL_EXIT K})"

text \<open>
  Section 4.C of the specification: ``REEL\_OUT/REEL\_IN are raised only by the
  telecommand dispatcher''. For \<^verbatim>\<open>ACTION_REEL_OUT\<close> this is two conditions on what the
  sources do not show: the scheduler never finds it due (no call of
  \<^verbatim>\<open>scheduler.AddAction\<close> in the sources schedules it), and the two hooks do not raise
  it.
\<close>

fun no_scheduled_REEL_OUT :: "event \<Rightarrow> bool" where
  "no_scheduled_REEL_OUT (Tick i) = (ACTION_REEL_OUT \<notin> set (fired i))"
| "no_scheduled_REEL_OUT (Telecommand mp rp tx_ok tc) = True"

definition hooks_do_not_raise_REEL_OUT :: "hooks \<Rightarrow> bool" where
  "hooks_do_not_raise_REEL_OUT H =
     ((\<forall>restart s. raised (action_flags (snd (Flight_ManualMotion H restart s)) ACTION_REEL_OUT)
          \<longrightarrow> raised (action_flags s ACTION_REEL_OUT)) \<and>
      (\<forall>s. raised (action_flags (RATS_Shutdown H s) ACTION_REEL_OUT)
          \<longrightarrow> raised (action_flags s ACTION_REEL_OUT)))"

text \<open>
  Where \<^verbatim>\<open>ACTION_REEL_OUT\<close> can be up: only in \<^verbatim>\<open>FL_MEASURE\<close>, where the handler
  raises it, and in \<^verbatim>\<open>FL_SEND_TELEMETRY\<close>, where a tick that found
  \<^verbatim>\<open>ACTION_START_TELEMETRY\<close> up as well has left it.
\<close>

definition REEL_OUT_confined :: "StratoCore_consts \<Rightarrow> StratoRATS \<Rightarrow> bool" where
  "REEL_OUT_confined K s =
     (raised (action_flags s ACTION_REEL_OUT) \<longrightarrow>
        inst_substate s = FL_MEASURE K \<or> inst_substate s = FL_SEND_TELEMETRY K)"

subsection \<open>Concrete objects for the examples\<close>

text \<open>
  The object as the member initialisers of StratoRats.h leave it (flags lowered,
  counters 0, lengths 0.0f, no motion), in the sub-state \<^verbatim>\<open>MODE_ENTRY\<close>; the members
  without an initialiser are 0 or false.
\<close>

definition fresh :: "StratoCore_consts \<Rightarrow> StratoRATS" where
  "fresh K =
     \<lparr>inst_substate = MODE_ENTRY K, flight_mode_substate = 0, time_valid = False,
      action_flags = (\<lambda>a. \<lparr>raised = False, stale_counter = 0\<rparr>),
      total_lora_count = 0, lora_count = 0, deploy_length = 0, retract_length = 0,
      mcb_motion_ongoing = False, mcb_motion = NO_MOTION,
      mcbParam = \<lparr>deployLen = 0, deployVel = 0, deployAcc = 0, retractLen = 0,
                  retractVel = 0, retractAcc = 0, torqueLimits = (0, 0), currLimits = (0, 0)\<rparr>,
      ratsParam = \<lparr>param_data_proc_method = 0\<rparr>,
      ratsConfigs = \<lparr>deploy_velocity = 0, retract_velocity = 0, data_proc_method = 0,
                     real_time_mcb = False\<rparr>,
      scheduled = [], log_out = [], tm_out = [], mcb_out = []\<rparr>"

text \<open>
  One choice of the framework's constants (sub-state values 0, 253, 254 and 255, a
  status message every 60 seconds) and of the two hooks (a motion that reports
  completion on its first poll and changes nothing; a shutdown that changes nothing).
\<close>

definition K0 :: StratoCore_consts where
  "K0 = \<lparr>MODE_ENTRY = 0, MODE_ERROR = 253, MODE_SHUTDOWN = 254, MODE_EXIT = 255,
         STATUS_MSG_PERIOD_SECS = 60\<rparr>"

definition H0 :: hooks where
  "H0 = \<lparr>Flight_ManualMotion = (\<lambda>restart s. (\<not> restart, s)), RATS_Shutdown = (\<lambda>s. s)\<rparr>"

text \<open>A tick on which a LoRa message arrives and \<^verbatim>\<open>ACTION_LORA_WAIT_MSG\<close> is due.\<close>

definition every_tick :: tick_in where
  "every_tick = \<lparr>lora_msg_present = True, gps_time_received = False, fired = [ACTION_LORA_WAIT_MSG]\<rparr>"

text \<open>
  An object to which the framework has handed a deploy length of 12.5 and a retract
  length of 5.0 revolutions (as bit patterns), and the two telecommands that ask for a
  reel-out and a reel-in with the parameters of the fresh object.
\<close>

definition deploy_request :: StratoRATS where
  "deploy_request =
     (fresh K0)\<lparr>mcbParam := (mcbParam (fresh K0))\<lparr>deployLen := 0x41480000, retractLen := 0x40A00000\<rparr>\<rparr>"

definition both_reel_commands :: "event list" where
  "both_reel_commands =
     [Telecommand (mcbParam (fresh K0)) (ratsParam (fresh K0)) True DEPLOYx,
      Telecommand (mcbParam (fresh K0)) (ratsParam (fresh K0)) True RETRACTx]"

text \<open>
  A tick on which nothing arrives and nothing is due, and one on which
  \<^verbatim>\<open>ACTION_START_TELEMETRY\<close> is due.
\<close>

definition quiet_tick :: tick_in where
  "quiet_tick = \<lparr>lora_msg_present = False, gps_time_received = False, fired = []\<rparr>"

definition telemetry_tick :: tick_in where
  "telemetry_tick =
     \<lparr>lora_msg_present = False, gps_time_received = False, fired = [ACTION_START_TELEMETRY]\<rparr>"

section \<open>Auxiliary facts\<close>

lemmas out_defs = send_tm_def log_line_def mcb_send_def AddAction_def

lemmas FL_defs = FL_ENTRY_def FL_GPS_WAIT_def FL_LORA_WAIT1_def FL_CONFIG_ECU_def
  FL_LORA_WAIT2_def FL_MEASURE_def FL_SEND_TELEMETRY_def FLM_IDLE_def FLM_MANUAL_MOTION_def

subsection \<open>The first switch of the telecommand handler\<close>

lemma TC_switch_level:
  "fst (snd (TC_switch K tx_ok tc s)) = LOG_NOMINAL \<or>
   fst (snd (TC_switch K tx_ok tc s)) = LOG_ERROR"
  by (cases tc) (simp_all add: TC_switch_def Let_def)

lemma TC_switch_log: "log_out (snd (snd (TC_switch K tx_ok tc s))) = log_out s"
  by (cases tc) (simp_all add: TC_switch_def Let_def SetAction_def out_defs SendRATSEEPROM_def)

lemma TC_switch_tm:
  "tm_out (snd (snd (TC_switch K tx_ok tc s))) =
     tm_out s @ (if tc = RATSGETEEPROM \<and> \<not> mcb_motion_ongoing s then [RATSEEPROM_TM] else [])"
  by (cases tc) (simp_all add: TC_switch_def Let_def SetAction_def out_defs SendRATSEEPROM_def)

text \<open>
  The guard of \<^verbatim>\<open>DEPLOYx\<close> and \<^verbatim>\<open>RETRACTx\<close>: the flag is up afterwards exactly
  when the sub-state is \<^verbatim>\<open>FL_MEASURE\<close>, or the flag was up before.
\<close>

lemma DEPLOYx_guard:
  "raised (action_flags (snd (TCHandler K tx_ok DEPLOYx s)) ACTION_REEL_OUT) =
     (inst_substate s = FL_MEASURE K \<or> raised (action_flags s ACTION_REEL_OUT))"
  by (simp add: TCHandler_def TC_switch_def TC_summary_def out_defs Let_def SetAction_def)

lemma RETRACTx_guard:
  "raised (action_flags (snd (TCHandler K tx_ok RETRACTx s)) ACTION_REEL_IN) =
     (inst_substate s = FL_MEASURE K \<or> raised (action_flags s ACTION_REEL_IN))"
  by (simp add: TCHandler_def TC_switch_def TC_summary_def out_defs Let_def SetAction_def)

subsection \<open>The statements before the switch of the flight machine\<close>

lemma sc_substate [simp]: "inst_substate (status_and_copy K s) = inst_substate s"
  by (simp add: status_and_copy_def statusMsgCheck_def CheckAction_def out_defs Let_def)

lemma sc_copy [simp]: "flight_mode_substate (status_and_copy K s) = inst_substate s"
  by (simp add: status_and_copy_def statusMsgCheck_def CheckAction_def out_defs Let_def)

lemma sc_frame [simp]:
  "time_valid (status_and_copy K s) = time_valid s"
  "lora_count (status_and_copy K s) = lora_count s"
  "total_lora_count (status_and_copy K s) = total_lora_count s"
  "mcb_motion (status_and_copy K s) = mcb_motion s"
  "mcb_motion_ongoing (status_and_copy K s) = mcb_motion_ongoing s"
  "deploy_length (status_and_copy K s) = deploy_length s"
  "retract_length (status_and_copy K s) = retract_length s"
  "log_out (status_and_copy K s) = log_out s"
  "mcb_out (status_and_copy K s) = mcb_out s"
  by (simp_all add: status_and_copy_def statusMsgCheck_def CheckAction_def out_defs Let_def)

lemma sc_flags [simp]:
  "a \<noteq> ACTION_SEND_STATUS \<Longrightarrow> action_flags (status_and_copy K s) a = action_flags s a"
  by (simp add: status_and_copy_def statusMsgCheck_def CheckAction_def out_defs Let_def)

lemma sc_scheduled:
  "scheduled (status_and_copy K s) = scheduled s @
     (if raised (action_flags s ACTION_SEND_STATUS)
      then [(ACTION_SEND_STATUS, STATUS_MSG_PERIOD_SECS K)] else [])"
  by (simp add: status_and_copy_def statusMsgCheck_def CheckAction_def out_defs Let_def)

lemma sc_tm:
  "tm_out (status_and_copy K s) = tm_out s @
     (if raised (action_flags s ACTION_SEND_STATUS) then [StatusTM (flight_mode_substate s)] else [])"
  by (simp add: status_and_copy_def statusMsgCheck_def CheckAction_def out_defs Let_def)

subsection \<open>One case of the switch at a time\<close>

lemma FlightMode_ENTRY:
  "inst_substate s = FL_ENTRY K \<Longrightarrow>
   FlightMode K H s =
     log_line LOG_NOMINAL [Txt ''Entering FL_GPS_WAIT'']
       ((AddAction ACTION_GPS_WAIT_MSG 5 (AddAction ACTION_SIM_LORA_MSG 30
          (AddAction ACTION_SEND_STATUS 1
             (log_line LOG_NOMINAL [Txt ''Entering FL''] (status_and_copy K s)))))
        \<lparr>inst_substate := FL_GPS_WAIT K\<rparr>)"
  by (simp add: FlightMode_def Let_def)

lemma FlightMode_MEASURE:
  "inst_substate s = FL_MEASURE K \<Longrightarrow>
   FlightMode K H s =
     (case CheckAction ACTION_START_TELEMETRY (status_and_copy K s) of
        (start, s1) \<Rightarrow>
          if start then
            log_line LOG_NOMINAL [Txt ''Entering FL_SEND_TELEMETRY'']
              (s1\<lparr>inst_substate := FL_SEND_TELEMETRY K\<rparr>)
          else
            log_line LOG_DEBUG [Txt ''FL Measure'']
              (case CheckAction ACTION_REEL_OUT s1 of
                 (reel_out, s2) \<Rightarrow>
                   if reel_out then manual_command K H ''Reel out manual command'' MOTION_REEL_OUT s2
                   else (case CheckAction ACTION_REEL_IN s2 of
                           (reel_in, s3) \<Rightarrow>
                             if reel_in
                             then manual_command K H ''Reel in manual command'' MOTION_REEL_IN s3
                             else s3)))"
  by (simp add: FlightMode_def Let_def FL_defs)

lemma FlightMode_SEND_TELEMETRY:
  "inst_substate s = FL_SEND_TELEMETRY K \<Longrightarrow>
   FlightMode K H s =
     log_line LOG_NOMINAL [Txt ''Entering FL_MEASURE'']
       (AddAction ACTION_START_TELEMETRY 60 ((status_and_copy K s)\<lparr>inst_substate := FL_MEASURE K\<rparr>))"
  by (simp add: FlightMode_def Let_def FL_defs)

lemma FlightMode_manual:
  "manual_states_dispatched K \<Longrightarrow>
   inst_substate s = FLM_IDLE K \<or> inst_substate s = FLM_MANUAL_MOTION K \<Longrightarrow>
   FlightMode K H s = ManualFlight K H (status_and_copy K s)"
  by (auto simp add: FlightMode_def Let_def FL_defs manual_states_dispatched_def)

lemma manual_command_substate [simp]:
  "inst_substate (manual_command K H line kind s) = FLM_MANUAL_MOTION K"
  by (simp add: manual_command_def Let_def out_defs)

lemma FM_ENTRY:
  "inst_substate s = FL_ENTRY K \<Longrightarrow>
     inst_substate (FlightMode K H s) = FL_GPS_WAIT K \<and>
     time_valid (FlightMode K H s) = time_valid s"
  by (simp add: FlightMode_ENTRY out_defs)

lemma FM_GPS:
  "inst_substate s = FL_GPS_WAIT K \<Longrightarrow> time_valid s \<Longrightarrow>
     inst_substate (FlightMode K H s) = FL_LORA_WAIT1 K \<and> lora_count (FlightMode K H s) = 0"
  by (simp add: FlightMode_def Let_def out_defs FL_defs CheckAction_def lora_count_check_def)

lemma FM_LW1:
  "inst_substate s = FL_LORA_WAIT1 K \<Longrightarrow> raised (action_flags s ACTION_LORA_WAIT_MSG) \<Longrightarrow>
     inst_substate (FlightMode K H s) =
       (if lora_gate (lora_count s) then FL_CONFIG_ECU K else FL_LORA_WAIT1 K) \<and>
     lora_count (FlightMode K H s) = lora_count s"
  by (simp add: FlightMode_def Let_def out_defs FL_defs CheckAction_def lora_count_check_def)

lemma FM_CONFIG:
  "inst_substate s = FL_CONFIG_ECU K \<Longrightarrow>
     inst_substate (FlightMode K H s) = FL_LORA_WAIT2 K \<and> lora_count (FlightMode K H s) = 0"
  by (simp add: FlightMode_def Let_def out_defs FL_defs CheckAction_def lora_count_check_def)

lemma FM_LW2:
  "inst_substate s = FL_LORA_WAIT2 K \<Longrightarrow> raised (action_flags s ACTION_LORA_WAIT_MSG) \<Longrightarrow>
     inst_substate (FlightMode K H s) =
       (if lora_gate (lora_count s) then FL_MEASURE K else FL_LORA_WAIT2 K) \<and>
     lora_count (FlightMode K H s) = lora_count s \<and>
     scheduled (FlightMode K H s) =
       scheduled (status_and_copy K s) @ (ACTION_LORA_WAIT_MSG, 1) #
         (if lora_gate (lora_count s) then [(ACTION_START_TELEMETRY, 0)] else [])"
  by (simp add: FlightMode_def Let_def out_defs FL_defs CheckAction_def lora_count_check_def)

subsection \<open>The rest of the loop\<close>

lemma SetAction_frame [simp]:
  "inst_substate (SetAction a s) = inst_substate s"
  "lora_count (SetAction a s) = lora_count s"
  "time_valid (SetAction a s) = time_valid s"
  "scheduled (SetAction a s) = scheduled s"
  by (simp_all add: SetAction_def)

lemma fold_SetAction_frame [simp]:
  "inst_substate (fold SetAction as s) = inst_substate s"
  "lora_count (fold SetAction as s) = lora_count s"
  "time_valid (fold SetAction as s) = time_valid s"
  "scheduled (fold SetAction as s) = scheduled s"
  by (induction as arbitrary: s) simp_all

lemma SetAction_keeps:
  "raised (action_flags s a) \<Longrightarrow> raised (action_flags (SetAction b s) a)"
  by (simp add: SetAction_def)

lemma fold_SetAction_keeps:
  "raised (action_flags s a) \<Longrightarrow> raised (action_flags (fold SetAction as s) a)"
  by (induction as arbitrary: s) (simp_all add: SetAction_keeps)

lemma fold_SetAction_raises:
  "a \<in> set as \<Longrightarrow> raised (action_flags (fold SetAction as s) a)"
proof (induction as arbitrary: s)
  case Nil
  then show ?case by simp
next
  case (Cons b as)
  show ?case
  proof (cases "a = b")
    case True
    have "raised (action_flags (SetAction b s) b)"
      by (simp add: SetAction_def)
    then show ?thesis
      using True by (simp add: fold_SetAction_keeps)
  next
    case False
    with Cons show ?thesis by simp
  qed
qed

lemma WatchFlags_frame [simp]:
  "inst_substate (WatchFlags s) = inst_substate s"
  "lora_count (WatchFlags s) = lora_count s"
  "time_valid (WatchFlags s) = time_valid s"
  "scheduled (WatchFlags s) = scheduled s"
  by (simp_all add: WatchFlags_def)

lemma arrive_frame [simp]:
  "inst_substate (arrive i s) = inst_substate s"
  "lora_count (arrive i s) = (if lora_msg_present i then lora_count s + 1 else lora_count s)"
  "time_valid (arrive i s) = (time_valid s \<or> gps_time_received i)"
  by (auto simp add: arrive_def LoRaRX_def Let_def)

lemma arrive_raised:
  "a \<in> set (fired i) \<Longrightarrow> raised (action_flags (arrive i s) a)"
  by (simp add: arrive_def Let_def fold_SetAction_raises)

lemma count_step: "unat (c :: 32 word) < 3 \<Longrightarrow> unat (c + 1) = Suc (unat c)"
  by (simp add: unat_word_ariths)

lemma run_append: "run K H (xs @ ys) s = run K H ys (run K H xs s)"
  by (induction xs arbitrary: s) simp_all

lemma trace_append:
  "substate_trace K H (xs @ ys) s =
     substate_trace K H xs s @ substate_trace K H ys (run K H xs s)"
  by (induction xs arbitrary: s) simp_all

lemma msgs_Cons: "msgs (i # w) = (if lora_msg_present i then Suc (msgs w) else msgs w)"
  by (simp add: msgs_def)

lemma msgs_append: "msgs (xs @ ys) = msgs xs + msgs ys"
  by (simp add: msgs_def)

lemma L_ENTRY:
  "inst_substate s = FL_ENTRY K \<Longrightarrow> time_valid s \<Longrightarrow>
     inst_substate (loop_tick K H i s) = FL_GPS_WAIT K \<and> time_valid (loop_tick K H i s)"
  using FM_ENTRY [of "arrive i s" K H] by (simp add: loop_tick_def)

lemma L_GPS:
  "inst_substate s = FL_GPS_WAIT K \<Longrightarrow> time_valid s \<Longrightarrow>
     inst_substate (loop_tick K H i s) = FL_LORA_WAIT1 K \<and> lora_count (loop_tick K H i s) = 0"
  using FM_GPS [of "arrive i s" K H] by (simp add: loop_tick_def)

lemma L_CONFIG:
  "inst_substate s = FL_CONFIG_ECU K \<Longrightarrow>
     inst_substate (loop_tick K H i s) = FL_LORA_WAIT2 K \<and> lora_count (loop_tick K H i s) = 0"
  using FM_CONFIG [of "arrive i s" K H] by (simp add: loop_tick_def)

lemma L_LW1:
  assumes "inst_substate s = FL_LORA_WAIT1 K" "ACTION_LORA_WAIT_MSG \<in> set (fired i)"
  shows "inst_substate (loop_tick K H i s) =
           (if lora_gate (lora_count (arrive i s)) then FL_CONFIG_ECU K else FL_LORA_WAIT1 K)"
    and "lora_count (loop_tick K H i s) = lora_count (arrive i s)"
  using assms FM_LW1 [of "arrive i s" K H] by (simp_all add: loop_tick_def arrive_raised)

lemma L_LW2:
  assumes "inst_substate s = FL_LORA_WAIT2 K" "ACTION_LORA_WAIT_MSG \<in> set (fired i)"
  shows "inst_substate (loop_tick K H i s) =
           (if lora_gate (lora_count (arrive i s)) then FL_MEASURE K else FL_LORA_WAIT2 K)"
    and "lora_count (loop_tick K H i s) = lora_count (arrive i s)"
    and "lora_gate (lora_count (arrive i s)) \<Longrightarrow>
           last (scheduled (loop_tick K H i s)) = (ACTION_START_TELEMETRY, 0)"
  using assms FM_LW2 [of "arrive i s" K H] by (simp_all add: loop_tick_def arrive_raised)

text \<open>
  The two waiting phases: from a count below the gate, the machine stays in the waiting
  sub-state until the tick on which the count reaches \<^verbatim>\<open>LORA_MSG_COUNT\<close>, and leaves it
  on that tick. Induction on the inputs, the object generalised.
\<close>

lemma wait1:
  assumes "inst_substate s = FL_LORA_WAIT1 K" "unat (lora_count s) < 3"
    "\<forall>i\<in>set w. ACTION_LORA_WAIT_MSG \<in> set (fired i)"
    "3 \<le> unat (lora_count s) + msgs w"
  shows "\<exists>n pre post. w = pre @ post \<and> length pre = Suc n \<and>
           substate_trace K H pre s = replicate n (FL_LORA_WAIT1 K) @ [FL_CONFIG_ECU K] \<and>
           inst_substate (run K H pre s) = FL_CONFIG_ECU K"
  using assms
proof (induction w arbitrary: s)
  case Nil
  then show ?case by (simp add: msgs_def)
next
  case (Cons i w)
  let ?s' = "loop_tick K H i s"
  let ?c = "lora_count (arrive i s)"
  have due: "ACTION_LORA_WAIT_MSG \<in> set (fired i)"
    using Cons.prems(3) by simp
  have c: "unat ?c = unat (lora_count s) + (if lora_msg_present i then 1 else 0)"
    using Cons.prems(2) by (simp add: count_step)
  show ?case
  proof (cases "lora_gate ?c")
    case True
    have "inst_substate ?s' = FL_CONFIG_ECU K"
      using L_LW1(1) [OF Cons.prems(1) due, of H] True by simp
    then have "i # w = [i] @ w \<and> length [i] = Suc 0 \<and>
           substate_trace K H [i] s = replicate 0 (FL_LORA_WAIT1 K) @ [FL_CONFIG_ECU K] \<and>
           inst_substate (run K H [i] s) = FL_CONFIG_ECU K"
      by simp
    then show ?thesis by blast
  next
    case False
    have st: "inst_substate ?s' = FL_LORA_WAIT1 K"
      using L_LW1(1) [OF Cons.prems(1) due, of H] False by simp
    have cnt: "lora_count ?s' = ?c"
      using L_LW1(2) [OF Cons.prems(1) due, of H] by simp
    have lt: "unat (lora_count ?s') < 3"
      using False cnt by (simp add: lora_gate_def LORA_MSG_COUNT_def)
    have ge: "3 \<le> unat (lora_count ?s') + msgs w"
      using Cons.prems(4) c cnt by (simp add: msgs_Cons split: if_splits)
    have rest: "\<forall>i\<in>set w. ACTION_LORA_WAIT_MSG \<in> set (fired i)"
      using Cons.prems(3) by simp
    from Cons.IH [OF st lt rest ge]
    obtain n pre post where p: "w = pre @ post" "length pre = Suc n"
      "substate_trace K H pre ?s' = replicate n (FL_LORA_WAIT1 K) @ [FL_CONFIG_ECU K]"
      "inst_substate (run K H pre ?s') = FL_CONFIG_ECU K"
      by blast
    have "i # w = (i # pre) @ post \<and> length (i # pre) = Suc (Suc n) \<and>
          substate_trace K H (i # pre) s = replicate (Suc n) (FL_LORA_WAIT1 K) @ [FL_CONFIG_ECU K] \<and>
          inst_substate (run K H (i # pre) s) = FL_CONFIG_ECU K"
      using p st by simp
    then show ?thesis by blast
  qed
qed

lemma wait2:
  assumes "inst_substate s = FL_LORA_WAIT2 K" "unat (lora_count s) < 3"
    "\<forall>i\<in>set w. ACTION_LORA_WAIT_MSG \<in> set (fired i)"
    "3 \<le> unat (lora_count s) + msgs w"
  shows "\<exists>n pre post. w = pre @ post \<and> length pre = Suc n \<and>
           substate_trace K H pre s = replicate n (FL_LORA_WAIT2 K) @ [FL_MEASURE K] \<and>
           inst_substate (run K H pre s) = FL_MEASURE K \<and>
           last (scheduled (run K H pre s)) = (ACTION_START_TELEMETRY, 0)"
  using assms
proof (induction w arbitrary: s)
  case Nil
  then show ?case by (simp add: msgs_def)
next
  case (Cons i w)
  let ?s' = "loop_tick K H i s"
  let ?c = "lora_count (arrive i s)"
  have due: "ACTION_LORA_WAIT_MSG \<in> set (fired i)"
    using Cons.prems(3) by simp
  have c: "unat ?c = unat (lora_count s) + (if lora_msg_present i then 1 else 0)"
    using Cons.prems(2) by (simp add: count_step)
  show ?case
  proof (cases "lora_gate ?c")
    case True
    have "inst_substate ?s' = FL_MEASURE K"
      using L_LW2(1) [OF Cons.prems(1) due, of H] True by simp
    moreover have "last (scheduled ?s') = (ACTION_START_TELEMETRY, 0)"
      using L_LW2(3) [OF Cons.prems(1) due True, of H] .
    ultimately have "i # w = [i] @ w \<and> length [i] = Suc 0 \<and>
           substate_trace K H [i] s = replicate 0 (FL_LORA_WAIT2 K) @ [FL_MEASURE K] \<and>
           inst_substate (run K H [i] s) = FL_MEASURE K \<and>
           last (scheduled (run K H [i] s)) = (ACTION_START_TELEMETRY, 0)"
      by simp
    then show ?thesis by blast
  next
    case False
    have st: "inst_substate ?s' = FL_LORA_WAIT2 K"
      using L_LW2(1) [OF Cons.prems(1) due, of H] False by simp
    have cnt: "lora_count ?s' = ?c"
      using L_LW2(2) [OF Cons.prems(1) due, of H] by simp
    have lt: "unat (lora_count ?s') < 3"
      using False cnt by (simp add: lora_gate_def LORA_MSG_COUNT_def)
    have ge: "3 \<le> unat (lora_count ?s') + msgs w"
      using Cons.prems(4) c cnt by (simp add: msgs_Cons split: if_splits)
    have rest: "\<forall>i\<in>set w. ACTION_LORA_WAIT_MSG \<in> set (fired i)"
      using Cons.prems(3) by simp
    from Cons.IH [OF st lt rest ge]
    obtain n pre post where p: "w = pre @ post" "length pre = Suc n"
      "substate_trace K H pre ?s' = replicate n (FL_LORA_WAIT2 K) @ [FL_MEASURE K]"
      "inst_substate (run K H pre ?s') = FL_MEASURE K"
      "last (scheduled (run K H pre ?s')) = (ACTION_START_TELEMETRY, 0)"
      by blast
    have "i # w = (i # pre) @ post \<and> length (i # pre) = Suc (Suc n) \<and>
          substate_trace K H (i # pre) s = replicate (Suc n) (FL_LORA_WAIT2 K) @ [FL_MEASURE K] \<and>
          inst_substate (run K H (i # pre) s) = FL_MEASURE K \<and>
          last (scheduled (run K H (i # pre) s)) = (ACTION_START_TELEMETRY, 0)"
      using p st by simp
    then show ?thesis by blast
  qed
qed

subsection \<open>Where the reel-out flag can be up\<close>

text \<open>
  The handler raises \<^verbatim>\<open>ACTION_REEL_OUT\<close> only in \<^verbatim>\<open>FL_MEASURE\<close> and leaves the
  sub-state alone; the flight machine never raises it, leaves \<^verbatim>\<open>FL_MEASURE\<close> with the
  flag up only for \<^verbatim>\<open>FL_SEND_TELEMETRY\<close>, and comes back from there; the decay only
  lowers flags. So \<open>REEL_OUT_confined\<close> is kept by every event.
\<close>

lemma TCHandler_substate [simp]: "inst_substate (snd (TCHandler K tx_ok tc s)) = inst_substate s"
  by (cases tc)
     (simp_all add: TCHandler_def TC_switch_def TC_summary_def out_defs Let_def SetAction_def
        SendRATSEEPROM_def split: LOG_LEVEL_t.split)

lemma TCHandler_REEL_OUT:
  "raised (action_flags (snd (TCHandler K tx_ok tc s)) ACTION_REEL_OUT) \<Longrightarrow>
     raised (action_flags s ACTION_REEL_OUT) \<or> inst_substate s = FL_MEASURE K"
  by (cases tc)
     (simp_all add: TCHandler_def TC_switch_def TC_summary_def out_defs Let_def SetAction_def
        SendRATSEEPROM_def split: if_splits)

lemma confined_TCHandler:
  "REEL_OUT_confined K s \<Longrightarrow>
     REEL_OUT_confined K (snd (TCHandler K tx_ok tc (s\<lparr>mcbParam := mp, ratsParam := rp\<rparr>)))"
  using TCHandler_REEL_OUT [of K tx_ok tc "s\<lparr>mcbParam := mp, ratsParam := rp\<rparr>"]
  by (auto simp add: REEL_OUT_confined_def)

lemma fold_SetAction_other:
  "a \<notin> set as \<Longrightarrow> action_flags (fold SetAction as s) a = action_flags s a"
  by (induction as arbitrary: s) (simp_all add: SetAction_def)

lemma arrive_other:
  "a \<notin> set (fired i) \<Longrightarrow> action_flags (arrive i s) a = action_flags s a"
  by (simp add: arrive_def Let_def fold_SetAction_other LoRaRX_def)

lemma confined_arrive:
  "ACTION_REEL_OUT \<notin> set (fired i) \<Longrightarrow> REEL_OUT_confined K s \<Longrightarrow> REEL_OUT_confined K (arrive i s)"
  by (simp add: REEL_OUT_confined_def arrive_other)

lemma hook_motion:
  "hooks_do_not_raise_REEL_OUT H \<Longrightarrow> \<not> raised (action_flags s ACTION_REEL_OUT) \<Longrightarrow>
     raised (action_flags (snd (Flight_ManualMotion H restart s)) ACTION_REEL_OUT) = False"
  unfolding hooks_do_not_raise_REEL_OUT_def by blast

lemma hook_shutdown:
  "hooks_do_not_raise_REEL_OUT H \<Longrightarrow> \<not> raised (action_flags s ACTION_REEL_OUT) \<Longrightarrow>
     raised (action_flags (RATS_Shutdown H s) ACTION_REEL_OUT) = False"
  unfolding hooks_do_not_raise_REEL_OUT_def by blast

lemma manual_command_REEL_OUT:
  "hooks_do_not_raise_REEL_OUT H \<Longrightarrow> \<not> raised (action_flags s ACTION_REEL_OUT) \<Longrightarrow>
     \<not> raised (action_flags (manual_command K H line kind s) ACTION_REEL_OUT)"
  by (simp add: manual_command_def Let_def out_defs hook_motion)

lemma ManualFlight_never_raises:
  "hooks_do_not_raise_REEL_OUT H \<Longrightarrow> \<not> raised (action_flags s ACTION_REEL_OUT) \<Longrightarrow>
     \<not> raised (action_flags (ManualFlight K H s) ACTION_REEL_OUT)"
  by (simp add: ManualFlight_def CheckAction_def out_defs split_beta hook_motion
      manual_command_REEL_OUT)

lemma FlightMode_never_raises:
  "hooks_do_not_raise_REEL_OUT H \<Longrightarrow> \<not> raised (action_flags s ACTION_REEL_OUT) \<Longrightarrow>
     \<not> raised (action_flags (FlightMode K H s) ACTION_REEL_OUT)"
  by (simp add: FlightMode_def CheckAction_def out_defs lora_count_check_def Let_def split_beta
      hook_shutdown manual_command_REEL_OUT ManualFlight_never_raises)

lemma confined_FlightMode:
  assumes H: "hooks_do_not_raise_REEL_OUT H" and c: "REEL_OUT_confined K s"
  shows "REEL_OUT_confined K (FlightMode K H s)"
proof (cases "raised (action_flags s ACTION_REEL_OUT)")
  case False
  from FlightMode_never_raises [OF H False] show ?thesis
    by (simp add: REEL_OUT_confined_def)
next
  case True
  with c consider "inst_substate s = FL_MEASURE K" | "inst_substate s = FL_SEND_TELEMETRY K"
    by (auto simp add: REEL_OUT_confined_def)
  then show ?thesis
  proof cases
    case 1
    show ?thesis
    proof (cases "raised (action_flags s ACTION_START_TELEMETRY)")
      case True
      with 1 have "inst_substate (FlightMode K H s) = FL_SEND_TELEMETRY K"
        by (simp add: FlightMode_MEASURE CheckAction_def out_defs)
      then show ?thesis by (simp add: REEL_OUT_confined_def)
    next
      case False
      have "\<not> raised (action_flags (FlightMode K H s) ACTION_REEL_OUT)"
        using 1 False True H
        by (simp add: FlightMode_MEASURE CheckAction_def out_defs manual_command_REEL_OUT)
      then show ?thesis by (simp add: REEL_OUT_confined_def)
    qed
  next
    case 2
    then have "inst_substate (FlightMode K H s) = FL_MEASURE K"
      by (simp add: FlightMode_SEND_TELEMETRY out_defs)
    then show ?thesis by (simp add: REEL_OUT_confined_def)
  qed
qed

lemma decay_raised: "raised (decay f) \<Longrightarrow> raised f"
  by (simp add: decay_def split: if_splits)

lemma confined_WatchFlags: "REEL_OUT_confined K s \<Longrightarrow> REEL_OUT_confined K (WatchFlags s)"
  using decay_raised [of "action_flags s ACTION_REEL_OUT"]
  by (auto simp add: REEL_OUT_confined_def WatchFlags_def)

lemma confined_step:
  "hooks_do_not_raise_REEL_OUT H \<Longrightarrow> no_scheduled_REEL_OUT e \<Longrightarrow> REEL_OUT_confined K s \<Longrightarrow>
     REEL_OUT_confined K (step K H e s)"
  by (cases e)
     (simp_all add: confined_TCHandler loop_tick_def confined_WatchFlags confined_FlightMode
        confined_arrive)

lemma confined_execute:
  "hooks_do_not_raise_REEL_OUT H \<Longrightarrow> \<forall>e\<in>set evs. no_scheduled_REEL_OUT e \<Longrightarrow>
     REEL_OUT_confined K s \<Longrightarrow> REEL_OUT_confined K (execute K H evs s)"
  by (induction evs arbitrary: s) (simp_all add: confined_step)


section \<open>The telecommand handler\<close>

text \<open>
  C1. \<^verbatim>\<open>DEPLOYx\<close> and \<^verbatim>\<open>RETRACTx\<close> raise \<^verbatim>\<open>ACTION_REEL_OUT\<close> and
  \<^verbatim>\<open>ACTION_REEL_IN\<close> and store the length when the sub-state is \<^verbatim>\<open>FL_MEASURE\<close>
  (summary: the fine-level message with the length). In every other sub-state the
  dispatch adds the line ``Cannot deploy, not in FL\_MEASURE'' (or ``Cannot retract'') to
  the log at error level and the same text to the telemetry as a warn-level message, and
  changes nothing else: no flag, no motion state, no length. This \<^verbatim>\<open>FL_MEASURE\<close> is
  the sub-state the flight machine enters: the tick that passes the gate of
  \<^verbatim>\<open>FL_LORA_WAIT2\<close> and the tick in \<^verbatim>\<open>FL_SEND_TELEMETRY\<close> both leave the object in a
  sub-state where the two commands are accepted, and it differs from every other
  sub-state the machine names.
\<close>

theorem telecommand_guard_is_flight_MEASURE:
  "(inst_substate s = FL_MEASURE K \<longrightarrow>
      snd (TCHandler K tx_ok DEPLOYx s) =
        send_tm (ZephyrLogFine [Txt ''TC Deploy Length'', Txt '': '', StrF1 (deployLen (mcbParam s)), Txt '' revs''])
          (log_line LOG_NOMINAL [Txt ''TC Deploy Length'', Txt '': '', StrF1 (deployLen (mcbParam s)), Txt '' revs'']
             (SetAction ACTION_REEL_OUT (s\<lparr>deploy_length := deployLen (mcbParam s)\<rparr>))) \<and>
      raised (action_flags (snd (TCHandler K tx_ok DEPLOYx s)) ACTION_REEL_OUT) \<and>
      deploy_length (snd (TCHandler K tx_ok DEPLOYx s)) = deployLen (mcbParam s) \<and>
      snd (TCHandler K tx_ok RETRACTx s) =
        send_tm (ZephyrLogFine [Txt ''TC Retract Length'', Txt '': '', StrF1 (retractLen (mcbParam s)), Txt '' revs''])
          (log_line LOG_NOMINAL [Txt ''TC Retract Length'', Txt '': '', StrF1 (retractLen (mcbParam s)), Txt '' revs'']
             (SetAction ACTION_REEL_IN (s\<lparr>retract_length := retractLen (mcbParam s)\<rparr>))) \<and>
      raised (action_flags (snd (TCHandler K tx_ok RETRACTx s)) ACTION_REEL_IN) \<and>
      retract_length (snd (TCHandler K tx_ok RETRACTx s)) = retractLen (mcbParam s)) \<and>
   (inst_substate r \<noteq> FL_MEASURE K \<longrightarrow>
      snd (TCHandler K tx_ok DEPLOYx r) =
        send_tm (ZephyrLogWarn [Txt ''Cannot deploy, not in FL_MEASURE''])
          (log_line LOG_ERROR [Txt ''Cannot deploy, not in FL_MEASURE''] r) \<and>
      snd (TCHandler K tx_ok RETRACTx r) =
        send_tm (ZephyrLogWarn [Txt ''Cannot retract, not in FL_MEASURE''])
          (log_line LOG_ERROR [Txt ''Cannot retract, not in FL_MEASURE''] r) \<and>
      action_flags (snd (TCHandler K tx_ok DEPLOYx r)) = action_flags r \<and>
      action_flags (snd (TCHandler K tx_ok RETRACTx r)) = action_flags r \<and>
      mcb_motion (snd (TCHandler K tx_ok DEPLOYx r)) = mcb_motion r \<and>
      mcb_motion (snd (TCHandler K tx_ok RETRACTx r)) = mcb_motion r \<and>
      mcb_motion_ongoing (snd (TCHandler K tx_ok DEPLOYx r)) = mcb_motion_ongoing r \<and>
      mcb_motion_ongoing (snd (TCHandler K tx_ok RETRACTx r)) = mcb_motion_ongoing r \<and>
      deploy_length (snd (TCHandler K tx_ok DEPLOYx r)) = deploy_length r \<and>
      retract_length (snd (TCHandler K tx_ok RETRACTx r)) = retract_length r) \<and>
   (inst_substate t = FL_LORA_WAIT2 K \<and> raised (action_flags t ACTION_LORA_WAIT_MSG) \<and>
    lora_gate (lora_count t) \<longrightarrow>
      inst_substate (FlightMode K H t) = FL_MEASURE K \<and>
      raised (action_flags (snd (TCHandler K tx_ok DEPLOYx (FlightMode K H t))) ACTION_REEL_OUT) \<and>
      raised (action_flags (snd (TCHandler K tx_ok RETRACTx (FlightMode K H t))) ACTION_REEL_IN)) \<and>
   (inst_substate u = FL_SEND_TELEMETRY K \<longrightarrow>
      inst_substate (FlightMode K H u) = FL_MEASURE K \<and>
      raised (action_flags (snd (TCHandler K tx_ok DEPLOYx (FlightMode K H u))) ACTION_REEL_OUT) \<and>
      raised (action_flags (snd (TCHandler K tx_ok RETRACTx (FlightMode K H u))) ACTION_REEL_IN)) \<and>
   FL_MEASURE K \<notin> {FL_ENTRY K, FL_GPS_WAIT K, FL_LORA_WAIT1 K, FL_CONFIG_ECU K, FL_LORA_WAIT2 K,
                     FL_SEND_TELEMETRY K, FLM_IDLE K, FLM_MANUAL_MOTION K}"
proof -
  have enter2: "inst_substate (FlightMode K H t) = FL_MEASURE K"
    if "inst_substate t = FL_LORA_WAIT2 K" "raised (action_flags t ACTION_LORA_WAIT_MSG)"
      "lora_gate (lora_count t)"
    using FM_LW2 [OF that(1,2), of H] that(3) by simp
  have enter3: "inst_substate (FlightMode K H u) = FL_MEASURE K"
    if "inst_substate u = FL_SEND_TELEMETRY K"
    using that by (simp add: FlightMode_SEND_TELEMETRY out_defs)
  have other: "FL_MEASURE K \<notin> {FL_ENTRY K, FL_GPS_WAIT K, FL_LORA_WAIT1 K, FL_CONFIG_ECU K,
      FL_LORA_WAIT2 K, FL_SEND_TELEMETRY K, FLM_IDLE K, FLM_MANUAL_MOTION K}"
    by (simp add: FL_defs)
  have A: "inst_substate s = FL_MEASURE K \<longrightarrow>
      snd (TCHandler K tx_ok DEPLOYx s) =
        send_tm (ZephyrLogFine [Txt ''TC Deploy Length'', Txt '': '', StrF1 (deployLen (mcbParam s)), Txt '' revs''])
          (log_line LOG_NOMINAL [Txt ''TC Deploy Length'', Txt '': '', StrF1 (deployLen (mcbParam s)), Txt '' revs'']
             (SetAction ACTION_REEL_OUT (s\<lparr>deploy_length := deployLen (mcbParam s)\<rparr>))) \<and>
      raised (action_flags (snd (TCHandler K tx_ok DEPLOYx s)) ACTION_REEL_OUT) \<and>
      deploy_length (snd (TCHandler K tx_ok DEPLOYx s)) = deployLen (mcbParam s) \<and>
      snd (TCHandler K tx_ok RETRACTx s) =
        send_tm (ZephyrLogFine [Txt ''TC Retract Length'', Txt '': '', StrF1 (retractLen (mcbParam s)), Txt '' revs''])
          (log_line LOG_NOMINAL [Txt ''TC Retract Length'', Txt '': '', StrF1 (retractLen (mcbParam s)), Txt '' revs'']
             (SetAction ACTION_REEL_IN (s\<lparr>retract_length := retractLen (mcbParam s)\<rparr>))) \<and>
      raised (action_flags (snd (TCHandler K tx_ok RETRACTx s)) ACTION_REEL_IN) \<and>
      retract_length (snd (TCHandler K tx_ok RETRACTx s)) = retractLen (mcbParam s)"
    by (simp add: TCHandler_def TC_switch_def TC_summary_def Let_def SetAction_def out_defs)
  have B: "inst_substate r \<noteq> FL_MEASURE K \<longrightarrow>
      snd (TCHandler K tx_ok DEPLOYx r) =
        send_tm (ZephyrLogWarn [Txt ''Cannot deploy, not in FL_MEASURE''])
          (log_line LOG_ERROR [Txt ''Cannot deploy, not in FL_MEASURE''] r) \<and>
      snd (TCHandler K tx_ok RETRACTx r) =
        send_tm (ZephyrLogWarn [Txt ''Cannot retract, not in FL_MEASURE''])
          (log_line LOG_ERROR [Txt ''Cannot retract, not in FL_MEASURE''] r) \<and>
      action_flags (snd (TCHandler K tx_ok DEPLOYx r)) = action_flags r \<and>
      action_flags (snd (TCHandler K tx_ok RETRACTx r)) = action_flags r \<and>
      mcb_motion (snd (TCHandler K tx_ok DEPLOYx r)) = mcb_motion r \<and>
      mcb_motion (snd (TCHandler K tx_ok RETRACTx r)) = mcb_motion r \<and>
      mcb_motion_ongoing (snd (TCHandler K tx_ok DEPLOYx r)) = mcb_motion_ongoing r \<and>
      mcb_motion_ongoing (snd (TCHandler K tx_ok RETRACTx r)) = mcb_motion_ongoing r \<and>
      deploy_length (snd (TCHandler K tx_ok DEPLOYx r)) = deploy_length r \<and>
      retract_length (snd (TCHandler K tx_ok RETRACTx r)) = retract_length r"
    by (simp add: TCHandler_def TC_switch_def TC_summary_def out_defs)
  have C: "inst_substate t = FL_LORA_WAIT2 K \<and> raised (action_flags t ACTION_LORA_WAIT_MSG) \<and>
    lora_gate (lora_count t) \<longrightarrow>
      inst_substate (FlightMode K H t) = FL_MEASURE K \<and>
      raised (action_flags (snd (TCHandler K tx_ok DEPLOYx (FlightMode K H t))) ACTION_REEL_OUT) \<and>
      raised (action_flags (snd (TCHandler K tx_ok RETRACTx (FlightMode K H t))) ACTION_REEL_IN)"
    using enter2 by (simp add: DEPLOYx_guard RETRACTx_guard)
  have D: "inst_substate u = FL_SEND_TELEMETRY K \<longrightarrow>
      inst_substate (FlightMode K H u) = FL_MEASURE K \<and>
      raised (action_flags (snd (TCHandler K tx_ok DEPLOYx (FlightMode K H u))) ACTION_REEL_OUT) \<and>
      raised (action_flags (snd (TCHandler K tx_ok RETRACTx (FlightMode K H u))) ACTION_REEL_IN)"
    using enter3 by (simp add: DEPLOYx_guard RETRACTx_guard)
  show ?thesis
    by (intro conjI A B C D other)
qed

text \<open>
  The four cases at concrete objects: accepted in \<^verbatim>\<open>FL_MEASURE\<close> with the lengths
  stored, refused in \<^verbatim>\<open>FL_GPS_WAIT\<close>, accepted after the tick that leaves
  \<^verbatim>\<open>FL_LORA_WAIT2\<close> with three messages counted and after the tick in
  \<^verbatim>\<open>FL_SEND_TELEMETRY\<close>.
\<close>

theorem telecommand_guard_is_flight_MEASURE_witness:
  "raised (action_flags (snd (TCHandler K0 True DEPLOYx (deploy_request\<lparr>inst_substate := FL_MEASURE K0\<rparr>)))
      ACTION_REEL_OUT) \<and>
   deploy_length (snd (TCHandler K0 True DEPLOYx (deploy_request\<lparr>inst_substate := FL_MEASURE K0\<rparr>))) =
      0x41480000 \<and>
   raised (action_flags (snd (TCHandler K0 True RETRACTx (deploy_request\<lparr>inst_substate := FL_MEASURE K0\<rparr>)))
      ACTION_REEL_IN) \<and>
   retract_length (snd (TCHandler K0 True RETRACTx (deploy_request\<lparr>inst_substate := FL_MEASURE K0\<rparr>))) =
      0x40A00000 \<and>
   snd (TCHandler K0 True DEPLOYx (deploy_request\<lparr>inst_substate := FL_GPS_WAIT K0\<rparr>)) =
      send_tm (ZephyrLogWarn [Txt ''Cannot deploy, not in FL_MEASURE''])
        (log_line LOG_ERROR [Txt ''Cannot deploy, not in FL_MEASURE'']
           (deploy_request\<lparr>inst_substate := FL_GPS_WAIT K0\<rparr>)) \<and>
   inst_substate (FlightMode K0 H0
      (SetAction ACTION_LORA_WAIT_MSG (deploy_request\<lparr>inst_substate := FL_LORA_WAIT2 K0, lora_count := 3\<rparr>))) =
      FL_MEASURE K0 \<and>
   raised (action_flags (snd (TCHandler K0 True DEPLOYx (FlightMode K0 H0
      (SetAction ACTION_LORA_WAIT_MSG (deploy_request\<lparr>inst_substate := FL_LORA_WAIT2 K0, lora_count := 3\<rparr>)))))
      ACTION_REEL_OUT) \<and>
   inst_substate (FlightMode K0 H0 (deploy_request\<lparr>inst_substate := FL_SEND_TELEMETRY K0\<rparr>)) =
      FL_MEASURE K0 \<and>
   raised (action_flags (snd (TCHandler K0 True DEPLOYx (FlightMode K0 H0
      (deploy_request\<lparr>inst_substate := FL_SEND_TELEMETRY K0\<rparr>)))) ACTION_REEL_OUT)"
proof -
  let ?m = "deploy_request\<lparr>inst_substate := FL_MEASURE K0\<rparr>"
  let ?g = "deploy_request\<lparr>inst_substate := FL_GPS_WAIT K0\<rparr>"
  let ?w = "SetAction ACTION_LORA_WAIT_MSG (deploy_request\<lparr>inst_substate := FL_LORA_WAIT2 K0, lora_count := 3\<rparr>)"
  let ?t = "deploy_request\<lparr>inst_substate := FL_SEND_TELEMETRY K0\<rparr>"
  note guard = telecommand_guard_is_flight_MEASURE [of ?m K0 True ?g ?w H0 ?t]
  have m: "inst_substate ?m = FL_MEASURE K0"
    by simp
  have g: "inst_substate ?g \<noteq> FL_MEASURE K0"
    by (simp add: FL_defs)
  have w: "inst_substate ?w = FL_LORA_WAIT2 K0 \<and> raised (action_flags ?w ACTION_LORA_WAIT_MSG) \<and>
      lora_gate (lora_count ?w)"
    by (simp add: SetAction_def lora_gate_def LORA_MSG_COUNT_def)
  have t: "inst_substate ?t = FL_SEND_TELEMETRY K0"
    by simp
  have p: "deployLen (mcbParam ?m) = 0x41480000" "retractLen (mcbParam ?m) = 0x40A00000"
    by (simp_all add: deploy_request_def)
  from guard m have accepted:
    "raised (action_flags (snd (TCHandler K0 True DEPLOYx ?m)) ACTION_REEL_OUT)"
    "deploy_length (snd (TCHandler K0 True DEPLOYx ?m)) = deployLen (mcbParam ?m)"
    "raised (action_flags (snd (TCHandler K0 True RETRACTx ?m)) ACTION_REEL_IN)"
    "retract_length (snd (TCHandler K0 True RETRACTx ?m)) = retractLen (mcbParam ?m)"
    by blast+
  from guard g have refused:
    "snd (TCHandler K0 True DEPLOYx ?g) =
      send_tm (ZephyrLogWarn [Txt ''Cannot deploy, not in FL_MEASURE''])
        (log_line LOG_ERROR [Txt ''Cannot deploy, not in FL_MEASURE''] ?g)"
    by blast
  from guard w have entered:
    "inst_substate (FlightMode K0 H0 ?w) = FL_MEASURE K0"
    "raised (action_flags (snd (TCHandler K0 True DEPLOYx (FlightMode K0 H0 ?w))) ACTION_REEL_OUT)"
    by blast+
  from guard t have returned:
    "inst_substate (FlightMode K0 H0 ?t) = FL_MEASURE K0"
    "raised (action_flags (snd (TCHandler K0 True DEPLOYx (FlightMode K0 H0 ?t))) ACTION_REEL_OUT)"
    by blast+
  show ?thesis
    using accepted refused entered returned unfolding p by (intro conjI)
qed

text \<open>
  C6. For every telecommand, unknown identifiers included, the handler returns ACK
  (\<open>True\<close>); an unknown command adds one warn-level telemetry message, and the ACK is
  returned all the same.
\<close>

theorem TCHandler_always_ACK:
  "fst (TCHandler K tx_ok telecommand s) = True \<and>
   fst (TCHandler K tx_ok (OtherTC n) s) = True \<and>
   tm_out (snd (TCHandler K tx_ok (OtherTC n) s)) =
     tm_out s @ [ZephyrLogWarn [Txt ''Unknown TC '', StrTC (OtherTC n), Txt '' received'']]"
  by (simp add: TCHandler_def TC_switch_def TC_summary_def out_defs split: prod.split)

text \<open>
  C7. Every dispatch adds exactly one line to the log and exactly one summary message
  to the telemetry, after whatever other telemetry the command itself sends; the line is
  at nominal or error level (never at debug level, the one branch that would log without
  a summary), and the summary carries the text of the line, fine-level or warn-level.
\<close>

theorem TCHandler_one_log_line_one_summary:
  "\<exists>lvl m pre t.
     log_out (snd (TCHandler K tx_ok tc s)) = log_out s @ [(lvl, m)] \<and>
     (lvl = LOG_NOMINAL \<or> lvl = LOG_ERROR) \<and>
     tm_out (snd (TCHandler K tx_ok tc s)) = tm_out s @ pre @ [t] \<and>
     filter is_summary pre = [] \<and>
     (t = ZephyrLogFine m \<or> t = ZephyrLogWarn m)"
proof -
  obtain m lvl s1 where sw: "TC_switch K tx_ok tc s = (m, lvl, s1)"
    by (cases "TC_switch K tx_ok tc s") auto
  let ?pre = "if tc = RATSGETEEPROM \<and> \<not> mcb_motion_ongoing s then [RATSEEPROM_TM] else []"
  let ?t = "if lvl = LOG_NOMINAL then ZephyrLogFine m else ZephyrLogWarn m"
  from TC_switch_level [of K tx_ok tc s] sw
  have lvl: "lvl = LOG_NOMINAL \<or> lvl = LOG_ERROR"
    by simp
  from TC_switch_log [of K tx_ok tc s] sw
  have lg: "log_out s1 = log_out s"
    by simp
  from TC_switch_tm [of K tx_ok tc s] sw
  have tm: "tm_out s1 = tm_out s @ ?pre"
    by simp
  have line: "log_out (snd (TCHandler K tx_ok tc s)) = log_out s @ [(lvl, m)]"
    using lvl lg sw by (auto simp: TCHandler_def TC_summary_def out_defs)
  have summary: "tm_out (snd (TCHandler K tx_ok tc s)) = tm_out s @ ?pre @ [?t]"
    using lvl tm sw by (auto simp: TCHandler_def TC_summary_def out_defs)
  have other: "filter is_summary ?pre = []"
    by (simp add: is_summary_def)
  have kind: "?t = ZephyrLogFine m \<or> ?t = ZephyrLogWarn m"
    by simp
  from line summary other kind lvl show ?thesis
    by blast
qed

text \<open>
  C8. When the transmission of \<^verbatim>\<open>DEPLOYa\<close> or \<^verbatim>\<open>RETRACTa\<close> to the MCB fails, the
  outcome is to be reported as an error, with a warn-level summary. The handler changes
  the text to ``Error sending ... acc to MCB'' and leaves the level at
  \<^verbatim>\<open>LOG_NOMINAL\<close>: the line is logged as nominal and the summary is fine-level. The
  sibling commands \<^verbatim>\<open>TORQUELIMITS\<close> and \<^verbatim>\<open>CURRLIMITS\<close> set \<^verbatim>\<open>LOG_ERROR\<close> on the same
  failure, and their summary is warn-level.
\<close>

theorem acceleration_TX_failure_reported_fine:
  "tm_out (snd (TCHandler K False DEPLOYa s)) =
     tm_out s @ [ZephyrLogFine [Txt ''Error sending deploy acc to MCB'']] \<and>
   log_out (snd (TCHandler K False DEPLOYa s)) =
     log_out s @ [(LOG_NOMINAL, [Txt ''Error sending deploy acc to MCB''])] \<and>
   tm_out (snd (TCHandler K False RETRACTa s)) =
     tm_out s @ [ZephyrLogFine [Txt ''Error sending retract acc to MCB'']] \<and>
   log_out (snd (TCHandler K False RETRACTa s)) =
     log_out s @ [(LOG_NOMINAL, [Txt ''Error sending retract acc to MCB''])] \<and>
   tm_out (snd (TCHandler K False TORQUELIMITS s)) =
     tm_out s @ [ZephyrLogWarn [Txt ''Error sending torque limits to MCB'']] \<and>
   tm_out (snd (TCHandler K False CURRLIMITS s)) =
     tm_out s @ [ZephyrLogWarn [Txt ''Error sending curr limits to MCB'']]"
  by (simp add: TCHandler_def TC_switch_def TC_summary_def out_defs Let_def)

section \<open>The constants\<close>

text \<open>
  C9. Whenever the header passes its preprocessor check, the maximum report size is
  \<open>7 + (NUM_ECU_REPORTS + 1) * record_size\<close> bytes and at most 8192 (which is the case
  for record sizes up to 45 bytes), and the tunable constants are 360, 180, 3, 15, 3, 10
  and 60.
\<close>

theorem report_size_within_TM_cap:
  assumes "report_size_check record_size = Inr n"
  shows "n = 7 + (NUM_ECU_REPORTS + 1) * record_size \<and> n \<le> 8192 \<and> record_size \<le> 45 \<and>
         RATS_REPORT_PERIOD_SECS = 360 \<and> NUM_ECU_REPORTS = 180 \<and> LORA_MSG_COUNT = 3 \<and>
         LORA_WARMUP_MSG_TIMEOUT = 15 \<and> FLAG_STALE = 3 \<and> MCB_RESEND_TIMEOUT = 10 \<and>
         ZEPHYR_RESEND_TIMEOUT = 60"
  using assms
  by (auto simp: report_size_check_def RATS_REPORT_MAX_BYTES_def RATS_HEADER_SIZE_BYTES_def
      NUM_ECU_REPORTS_def RATS_REPORT_PERIOD_SECS_def LORA_MSG_COUNT_def
      LORA_WARMUP_MSG_TIMEOUT_def FLAG_STALE_def MCB_RESEND_TIMEOUT_def
      ZEPHYR_RESEND_TIMEOUT_def split: if_splits)

text \<open>The largest record size that passes: 45 bytes, a report of 8152 bytes.\<close>

theorem report_size_within_TM_cap_witness:
  "report_size_check 45 = Inr 8152 \<and>
   (8152 :: nat) = 7 + (NUM_ECU_REPORTS + 1) * 45 \<and> (8152 :: nat) \<le> 8192 \<and>
   RATS_REPORT_PERIOD_SECS = 360 \<and> NUM_ECU_REPORTS = 180 \<and> LORA_MSG_COUNT = 3 \<and>
   LORA_WARMUP_MSG_TIMEOUT = 15 \<and> FLAG_STALE = 3 \<and> MCB_RESEND_TIMEOUT = 10 \<and>
   ZEPHYR_RESEND_TIMEOUT = 60"
proof -
  have h: "report_size_check 45 = Inr 8152"
    by (simp add: report_size_check_def RATS_REPORT_MAX_BYTES_def RATS_HEADER_SIZE_BYTES_def
        NUM_ECU_REPORTS_def)
  from report_size_within_TM_cap [OF h] h show ?thesis
    by simp
qed

section \<open>The flight state machine\<close>

text \<open>
  C2. From \<^verbatim>\<open>FL_ENTRY\<close> with \<^verbatim>\<open>time_valid\<close> set, when \<^verbatim>\<open>ACTION_LORA_WAIT_MSG\<close> is due
  on every tick and at least \<^verbatim>\<open>LORA_MSG_COUNT\<close> LoRa messages arrive after each reset
  of the warmup counter (in \<open>w1\<close>, the ticks after the reset of the \<^verbatim>\<open>FL_GPS_WAIT\<close>
  tick \<open>g\<close>, and again in \<open>w2\<close>, later by at least the tick \<open>c\<close>), then within the
  given ticks the machine reaches \<^verbatim>\<open>FL_MEASURE\<close>: the sub-states after the ticks are
  \<^verbatim>\<open>FL_GPS_WAIT\<close> once, then \<^verbatim>\<open>FL_LORA_WAIT1\<close>, then \<^verbatim>\<open>FL_CONFIG_ECU\<close> once, then
  \<^verbatim>\<open>FL_LORA_WAIT2\<close>, then \<^verbatim>\<open>FL_MEASURE\<close>, with no return to an earlier one, the first
  wait ends within \<open>w1\<close>, and the tick that enters \<^verbatim>\<open>FL_MEASURE\<close> schedules
  \<^verbatim>\<open>ACTION_START_TELEMETRY\<close> with a delay of 0 seconds as its last action.
\<close>

theorem nominal_warmup_reaches_MEASURE:
  assumes entry: "inst_substate s = FL_ENTRY K" and tv: "time_valid s"
    and due: "\<forall>i\<in>set ins. ACTION_LORA_WAIT_MSG \<in> set (fired i)"
    and ins: "ins = e # g # w1 @ c # w2"
    and m1: "LORA_MSG_COUNT \<le> msgs w1" and m2: "LORA_MSG_COUNT \<le> msgs w2"
  shows "\<exists>pre post n1 n2. ins = pre @ post \<and> n1 < length w1 \<and>
     substate_trace K H pre s =
       FL_GPS_WAIT K # replicate (Suc n1) (FL_LORA_WAIT1 K) @
       FL_CONFIG_ECU K # replicate (Suc n2) (FL_LORA_WAIT2 K) @ [FL_MEASURE K] \<and>
     inst_substate (run K H pre s) = FL_MEASURE K \<and>
     last (scheduled (run K H pre s)) = (ACTION_START_TELEMETRY, 0)"
proof -
  let ?s1 = "loop_tick K H e s"
  let ?s2 = "loop_tick K H g ?s1"
  have s1: "inst_substate ?s1 = FL_GPS_WAIT K" "time_valid ?s1"
    using L_ENTRY [OF entry tv, of H e] by simp_all
  have s2: "inst_substate ?s2 = FL_LORA_WAIT1 K" "lora_count ?s2 = 0"
    using L_GPS [OF s1, of H g] by simp_all
  have due1: "\<forall>i\<in>set w1. ACTION_LORA_WAIT_MSG \<in> set (fired i)"
    using due ins by simp
  have "3 \<le> unat (lora_count ?s2) + msgs w1"
    using m1 s2 by (simp add: LORA_MSG_COUNT_def)
  with wait1 [OF s2(1) _ due1, of H] s2(2)
  obtain n1 pre1 post1 where p1: "w1 = pre1 @ post1" "length pre1 = Suc n1"
    "substate_trace K H pre1 ?s2 = replicate n1 (FL_LORA_WAIT1 K) @ [FL_CONFIG_ECU K]"
    "inst_substate (run K H pre1 ?s2) = FL_CONFIG_ECU K"
    by auto
  let ?s3 = "run K H pre1 ?s2"
  obtain x rest where rest: "post1 @ c # w2 = x # rest" "3 \<le> msgs rest"
    "\<forall>i\<in>set rest. ACTION_LORA_WAIT_MSG \<in> set (fired i)"
  proof (cases post1)
    case Nil
    show ?thesis
      by (rule that [of c w2]) (use Nil m2 due ins in \<open>simp_all add: LORA_MSG_COUNT_def\<close>)
  next
    case (Cons y ys)
    show ?thesis
      by (rule that [of y "ys @ c # w2"])
         (use Cons m2 due ins p1(1) in \<open>simp_all add: LORA_MSG_COUNT_def msgs_append msgs_Cons\<close>)
  qed
  let ?s4 = "loop_tick K H x ?s3"
  have s4: "inst_substate ?s4 = FL_LORA_WAIT2 K" "lora_count ?s4 = 0"
    using L_CONFIG [OF p1(4), of H x] by simp_all
  have "3 \<le> unat (lora_count ?s4) + msgs rest"
    using rest(2) s4 by simp
  with wait2 [OF s4(1) _ rest(3), of H] s4(2)
  obtain n2 pre2 post2 where p2: "rest = pre2 @ post2" "length pre2 = Suc n2"
    "substate_trace K H pre2 ?s4 = replicate n2 (FL_LORA_WAIT2 K) @ [FL_MEASURE K]"
    "inst_substate (run K H pre2 ?s4) = FL_MEASURE K"
    "last (scheduled (run K H pre2 ?s4)) = (ACTION_START_TELEMETRY, 0)"
    by auto
  let ?pre = "e # g # pre1 @ x # pre2"
  have split: "ins = ?pre @ post2"
    using ins p1(1) rest(1) p2(1) by simp
  have n1: "n1 < length w1"
    using p1(1,2) by simp
  have tr: "substate_trace K H ?pre s =
       FL_GPS_WAIT K # replicate (Suc n1) (FL_LORA_WAIT1 K) @
       FL_CONFIG_ECU K # replicate (Suc n2) (FL_LORA_WAIT2 K) @ [FL_MEASURE K]"
    using s1(1) s2(1) p1(3) s4(1) p2(3) by (simp add: trace_append replicate_app_Cons_same)
  have fin: "inst_substate (run K H ?pre s) = FL_MEASURE K"
    "last (scheduled (run K H ?pre s)) = (ACTION_START_TELEMETRY, 0)"
    using p2(4,5) by (simp_all add: run_append)
  from split n1 tr fin show ?thesis
    by blast
qed

text \<open>
  Nine ticks, a LoRa message on each: one in \<^verbatim>\<open>FL_ENTRY\<close>, one in \<^verbatim>\<open>FL_GPS_WAIT\<close>,
  three for the first wait, one in \<^verbatim>\<open>FL_CONFIG_ECU\<close>, three for the second wait.
\<close>

theorem nominal_warmup_reaches_MEASURE_witness:
  "\<exists>pre post n1 n2. replicate 9 every_tick = pre @ post \<and>
     n1 < length (replicate 3 every_tick) \<and>
     substate_trace K0 H0 pre ((fresh K0)\<lparr>time_valid := True\<rparr>) =
       FL_GPS_WAIT K0 # replicate (Suc n1) (FL_LORA_WAIT1 K0) @
       FL_CONFIG_ECU K0 # replicate (Suc n2) (FL_LORA_WAIT2 K0) @ [FL_MEASURE K0] \<and>
     inst_substate (run K0 H0 pre ((fresh K0)\<lparr>time_valid := True\<rparr>)) = FL_MEASURE K0 \<and>
     last (scheduled (run K0 H0 pre ((fresh K0)\<lparr>time_valid := True\<rparr>))) =
       (ACTION_START_TELEMETRY, 0)"
proof -
  have a: "inst_substate ((fresh K0)\<lparr>time_valid := True\<rparr>) = FL_ENTRY K0"
    by (simp add: fresh_def FL_ENTRY_def)
  have b: "time_valid ((fresh K0)\<lparr>time_valid := True\<rparr>)"
    by simp
  have c: "\<forall>i\<in>set (replicate 9 every_tick). ACTION_LORA_WAIT_MSG \<in> set (fired i)"
    by (simp add: every_tick_def)
  have d: "replicate 9 every_tick =
      every_tick # every_tick # replicate 3 every_tick @ every_tick # replicate 3 every_tick"
    by (simp add: numeral_eq_Suc)
  have e: "LORA_MSG_COUNT \<le> msgs (replicate 3 every_tick)"
    by (simp add: LORA_MSG_COUNT_def msgs_def every_tick_def numeral_eq_Suc)
  from nominal_warmup_reaches_MEASURE [OF a b c d e e, of H0] show ?thesis .
qed

text \<open>
  C3, as the code has it. On every tick in \<^verbatim>\<open>FL_SEND_TELEMETRY\<close> the machine schedules
  \<^verbatim>\<open>ACTION_START_TELEMETRY\<close> 60 seconds ahead and sets the sub-state to
  \<^verbatim>\<open>FL_MEASURE\<close>; it sends no RATS report: the only telemetry of the tick is the status
  message of the check that every tick begins with, when that is due.
\<close>

theorem SEND_TELEMETRY_tick:
  assumes "inst_substate s = FL_SEND_TELEMETRY K"
  shows "inst_substate (FlightMode K H s) = FL_MEASURE K \<and>
         scheduled (FlightMode K H s) =
           scheduled (status_and_copy K s) @ [(ACTION_START_TELEMETRY, 60)] \<and>
         tm_out (FlightMode K H s) = tm_out s @
           (if raised (action_flags s ACTION_SEND_STATUS)
            then [StatusTM (flight_mode_substate s)] else []) \<and>
         RATSReportTM \<notin> set (drop (length (tm_out s)) (tm_out (FlightMode K H s)))"
  using assms by (simp add: FlightMode_SEND_TELEMETRY out_defs sc_tm)

theorem SEND_TELEMETRY_tick_witness:
  "inst_substate (FlightMode K0 H0 ((fresh K0)\<lparr>inst_substate := FL_SEND_TELEMETRY K0\<rparr>)) =
     FL_MEASURE K0 \<and>
   scheduled (FlightMode K0 H0 ((fresh K0)\<lparr>inst_substate := FL_SEND_TELEMETRY K0\<rparr>)) =
     [(ACTION_START_TELEMETRY, 60)]"
  using SEND_TELEMETRY_tick [of "(fresh K0)\<lparr>inst_substate := FL_SEND_TELEMETRY K0\<rparr>" K0 H0]
  by (simp add: sc_scheduled fresh_def)

text \<open>
  The claim as stated fails: a tick in \<^verbatim>\<open>FL_SEND_TELEMETRY\<close> on an object that has sent
  no telemetry leaves it so; nothing is flushed.
\<close>

theorem SEND_TELEMETRY_no_flush_counterexample:
  "inst_substate ((fresh K0)\<lparr>inst_substate := FL_SEND_TELEMETRY K0\<rparr>) = FL_SEND_TELEMETRY K0 \<and>
   tm_out ((fresh K0)\<lparr>inst_substate := FL_SEND_TELEMETRY K0\<rparr>) = [] \<and>
   tm_out (FlightMode K0 H0 ((fresh K0)\<lparr>inst_substate := FL_SEND_TELEMETRY K0\<rparr>)) = []"
  by (simp add: FlightMode_SEND_TELEMETRY out_defs sc_tm fresh_def)

text \<open>
  C4, as the code has it. In \<^verbatim>\<open>FLM_MANUAL_MOTION\<close>, once the motion sub-machine reports
  completion, the machine goes to \<^verbatim>\<open>FLM_IDLE\<close>. On a tick in \<^verbatim>\<open>FLM_IDLE\<close> it stays
  there, or goes to \<^verbatim>\<open>FLM_MANUAL_MOTION\<close> when a reel flag is up; it does not go to
  \<^verbatim>\<open>FL_MEASURE\<close>.
\<close>

theorem manual_motion_done_then_idle:
  assumes "manual_states_dispatched K"
  shows "(inst_substate s = FLM_MANUAL_MOTION K \<and>
          fst (Flight_ManualMotion H False (status_and_copy K s)) \<longrightarrow>
            inst_substate (FlightMode K H s) = FLM_IDLE K) \<and>
         (inst_substate t = FLM_IDLE K \<longrightarrow>
            inst_substate (FlightMode K H t) =
              (if raised (action_flags t ACTION_REEL_IN) \<or> raised (action_flags t ACTION_REEL_OUT)
               then FLM_MANUAL_MOTION K else FLM_IDLE K) \<and>
            inst_substate (FlightMode K H t) \<noteq> FL_MEASURE K)"
proof -
  have a: "inst_substate (FlightMode K H s) = FLM_IDLE K"
    if "inst_substate s = FLM_MANUAL_MOTION K"
      and "fst (Flight_ManualMotion H False (status_and_copy K s))"
    using that assms
    by (cases "Flight_ManualMotion H False (status_and_copy K s)")
       (simp add: FlightMode_manual ManualFlight_def FL_defs out_defs)
  have b: "inst_substate (FlightMode K H t) =
              (if raised (action_flags t ACTION_REEL_IN) \<or> raised (action_flags t ACTION_REEL_OUT)
               then FLM_MANUAL_MOTION K else FLM_IDLE K)"
    if "inst_substate t = FLM_IDLE K"
    using that assms
    by (simp add: FlightMode_manual ManualFlight_def CheckAction_def out_defs)
  have c: "inst_substate (FlightMode K H t) \<noteq> FL_MEASURE K"
    if "inst_substate t = FLM_IDLE K"
    using b [OF that] by (simp add: FL_defs)
  from a b c show ?thesis
    by blast
qed

theorem manual_motion_done_then_idle_witness:
  "manual_states_dispatched K0 \<and>
   inst_substate (FlightMode K0 H0 ((fresh K0)\<lparr>inst_substate := FLM_MANUAL_MOTION K0\<rparr>)) =
     FLM_IDLE K0 \<and>
   inst_substate (FlightMode K0 H0 ((fresh K0)\<lparr>inst_substate := FLM_IDLE K0\<rparr>)) = FLM_IDLE K0"
proof -
  have d: "manual_states_dispatched K0"
    by (simp add: manual_states_dispatched_def FL_defs FL_ERROR_def FL_SHUTDOWN_def FL_EXIT_def
        K0_def)
  from manual_motion_done_then_idle [OF d,
      of "(fresh K0)\<lparr>inst_substate := FLM_MANUAL_MOTION K0\<rparr>" H0
         "(fresh K0)\<lparr>inst_substate := FLM_IDLE K0\<rparr>"] d
  show ?thesis
    by (simp add: H0_def fresh_def)
qed

text \<open>
  The claim as stated fails: with a motion that completes on its first poll, the tick
  in \<^verbatim>\<open>FLM_MANUAL_MOTION\<close> leads to \<^verbatim>\<open>FLM_IDLE\<close>, and the next tick leaves the machine
  in \<^verbatim>\<open>FLM_IDLE\<close>, not in \<^verbatim>\<open>FL_MEASURE\<close>.
\<close>

theorem idle_does_not_return_to_MEASURE_counterexample:
  "inst_substate (FlightMode K0 H0 ((fresh K0)\<lparr>inst_substate := FLM_MANUAL_MOTION K0\<rparr>)) =
     FLM_IDLE K0 \<and>
   inst_substate (FlightMode K0 H0
      (FlightMode K0 H0 ((fresh K0)\<lparr>inst_substate := FLM_MANUAL_MOTION K0\<rparr>))) = FLM_IDLE K0 \<and>
   inst_substate (FlightMode K0 H0
      (FlightMode K0 H0 ((fresh K0)\<lparr>inst_substate := FLM_MANUAL_MOTION K0\<rparr>))) \<noteq> FL_MEASURE K0"
proof -
  have d: "manual_states_dispatched K0"
    by (simp add: manual_states_dispatched_def FL_defs FL_ERROR_def FL_SHUTDOWN_def FL_EXIT_def
        K0_def)
  let ?s = "(fresh K0)\<lparr>inst_substate := FLM_MANUAL_MOTION K0\<rparr>"
  have one: "inst_substate (FlightMode K0 H0 ?s) = FLM_IDLE K0"
    using d by (simp add: FlightMode_manual ManualFlight_def FL_defs out_defs H0_def)
  have flags: "action_flags (FlightMode K0 H0 ?s) a = \<lparr>raised = False, stale_counter = 0\<rparr>" for a
    using d
    by (simp add: FlightMode_manual ManualFlight_def FL_defs out_defs H0_def fresh_def
        status_and_copy_def statusMsgCheck_def CheckAction_def)
  have two: "inst_substate (FlightMode K0 H0 (FlightMode K0 H0 ?s)) = FLM_IDLE K0"
    using d one flags
    by (simp add: FlightMode_manual [of K0 "FlightMode K0 H0 ?s"] ManualFlight_def
        CheckAction_def out_defs)
  show ?thesis
    using one two by (simp add: FL_defs)
qed

text \<open>
  C5. Take any sequence of telecommands and loop passes from an object with
  \<^verbatim>\<open>ACTION_REEL_OUT\<close> down, where this flag is raised by the handler only (the
  scheduler never finds it due, the hooks do not raise it), and a tick that finds both
  reel flags up. Then the machine is in \<^verbatim>\<open>FL_MEASURE\<close> or \<^verbatim>\<open>FL_SEND_TELEMETRY\<close>. In
  \<^verbatim>\<open>FL_MEASURE\<close> with \<^verbatim>\<open>ACTION_START_TELEMETRY\<close> down, the reel-out motion is the
  one started: \<^verbatim>\<open>ACTION_REEL_OUT\<close> is lowered and \<^verbatim>\<open>ACTION_REEL_IN\<close> is still up
  when the motion begins. In \<^verbatim>\<open>FL_SEND_TELEMETRY\<close> no reel flag is touched. And on
  every tick in \<^verbatim>\<open>FL_MEASURE\<close> with \<^verbatim>\<open>ACTION_START_TELEMETRY\<close> up, whatever the
  reel flags, the sub-state becomes \<^verbatim>\<open>FL_SEND_TELEMETRY\<close> and no reel flag is
  touched. (\<^verbatim>\<open>ManualFlight\<close> tests \<^verbatim>\<open>ACTION_REEL_IN\<close> first in \<^verbatim>\<open>FLM_IDLE\<close>, but
  by the first conclusion no tick there finds both flags up.)
\<close>

theorem REEL_OUT_wins_when_both_flags_are_up:
  assumes hooks: "hooks_do_not_raise_REEL_OUT H"
    and sched: "\<forall>e\<in>set evs. no_scheduled_REEL_OUT e" "ACTION_REEL_OUT \<notin> set (fired i)"
    and start: "\<not> raised (action_flags s0 ACTION_REEL_OUT)"
    and s: "s = arrive i (execute K H evs s0)"
    and both: "raised (action_flags s ACTION_REEL_OUT)" "raised (action_flags s ACTION_REEL_IN)"
  shows "(inst_substate s = FL_MEASURE K \<or> inst_substate s = FL_SEND_TELEMETRY K) \<and>
    (inst_substate s = FL_MEASURE K \<and> \<not> raised (action_flags s ACTION_START_TELEMETRY) \<longrightarrow>
       FlightMode K H s =
         log_line LOG_DEBUG [Txt ''FL Measure'']
           (manual_command K H ''Reel out manual command'' MOTION_REEL_OUT
              (snd (CheckAction ACTION_REEL_OUT
                 (snd (CheckAction ACTION_START_TELEMETRY (status_and_copy K s)))))) \<and>
       \<not> raised (action_flags (snd (CheckAction ACTION_REEL_OUT
                 (snd (CheckAction ACTION_START_TELEMETRY (status_and_copy K s))))) ACTION_REEL_OUT) \<and>
       raised (action_flags (snd (CheckAction ACTION_REEL_OUT
                 (snd (CheckAction ACTION_START_TELEMETRY (status_and_copy K s))))) ACTION_REEL_IN)) \<and>
    (inst_substate s = FL_SEND_TELEMETRY K \<longrightarrow>
       inst_substate (FlightMode K H s) = FL_MEASURE K \<and>
       action_flags (FlightMode K H s) ACTION_REEL_OUT = action_flags s ACTION_REEL_OUT \<and>
       action_flags (FlightMode K H s) ACTION_REEL_IN = action_flags s ACTION_REEL_IN) \<and>
    (inst_substate u = FL_MEASURE K \<and> raised (action_flags u ACTION_START_TELEMETRY) \<longrightarrow>
       inst_substate (FlightMode K H u) = FL_SEND_TELEMETRY K \<and>
       action_flags (FlightMode K H u) ACTION_REEL_OUT = action_flags u ACTION_REEL_OUT \<and>
       action_flags (FlightMode K H u) ACTION_REEL_IN = action_flags u ACTION_REEL_IN)"
proof -
  have "REEL_OUT_confined K s0"
    using start by (simp add: REEL_OUT_confined_def)
  then have "REEL_OUT_confined K s"
    unfolding s using hooks sched by (intro confined_arrive confined_execute)
  with both(1) have place: "inst_substate s = FL_MEASURE K \<or> inst_substate s = FL_SEND_TELEMETRY K"
    by (simp add: REEL_OUT_confined_def)
  have out: "FlightMode K H s =
         log_line LOG_DEBUG [Txt ''FL Measure'']
           (manual_command K H ''Reel out manual command'' MOTION_REEL_OUT
              (snd (CheckAction ACTION_REEL_OUT
                 (snd (CheckAction ACTION_START_TELEMETRY (status_and_copy K s))))))"
    if "inst_substate s = FL_MEASURE K" "\<not> raised (action_flags s ACTION_START_TELEMETRY)"
    using that both(1) by (simp add: FlightMode_MEASURE CheckAction_def)
  have handed: "\<not> raised (action_flags (snd (CheckAction ACTION_REEL_OUT
                 (snd (CheckAction ACTION_START_TELEMETRY (status_and_copy K s))))) ACTION_REEL_OUT)"
      "raised (action_flags (snd (CheckAction ACTION_REEL_OUT
                 (snd (CheckAction ACTION_START_TELEMETRY (status_and_copy K s))))) ACTION_REEL_IN)"
    using both(2) by (simp_all add: CheckAction_def)
  have send: "inst_substate (FlightMode K H s) = FL_MEASURE K \<and>
       action_flags (FlightMode K H s) ACTION_REEL_OUT = action_flags s ACTION_REEL_OUT \<and>
       action_flags (FlightMode K H s) ACTION_REEL_IN = action_flags s ACTION_REEL_IN"
    if "inst_substate s = FL_SEND_TELEMETRY K"
    using that by (simp add: FlightMode_SEND_TELEMETRY out_defs)
  have first: "inst_substate (FlightMode K H u) = FL_SEND_TELEMETRY K \<and>
       action_flags (FlightMode K H u) ACTION_REEL_OUT = action_flags u ACTION_REEL_OUT \<and>
       action_flags (FlightMode K H u) ACTION_REEL_IN = action_flags u ACTION_REEL_IN"
    if "inst_substate u = FL_MEASURE K" "raised (action_flags u ACTION_START_TELEMETRY)"
    using that by (simp add: FlightMode_MEASURE CheckAction_def out_defs)
  from place out handed send first show ?thesis
    by blast
qed


text \<open>
  A deploy and a retract command dispatched in \<^verbatim>\<open>FL_MEASURE\<close>: the next tick starts
  the reel-out motion; if \<^verbatim>\<open>ACTION_START_TELEMETRY\<close> is due on that tick instead, it
  goes to \<^verbatim>\<open>FL_SEND_TELEMETRY\<close>, and the tick after that, with both reel flags still
  up, returns to \<^verbatim>\<open>FL_MEASURE\<close>.
\<close>

theorem REEL_OUT_wins_when_both_flags_are_up_witness:
  "inst_substate (arrive quiet_tick (execute K0 H0 both_reel_commands
      ((fresh K0)\<lparr>inst_substate := FL_MEASURE K0\<rparr>))) = FL_MEASURE K0 \<and>
   FlightMode K0 H0 (arrive quiet_tick (execute K0 H0 both_reel_commands
      ((fresh K0)\<lparr>inst_substate := FL_MEASURE K0\<rparr>))) =
     log_line LOG_DEBUG [Txt ''FL Measure'']
       (manual_command K0 H0 ''Reel out manual command'' MOTION_REEL_OUT
          (snd (CheckAction ACTION_REEL_OUT
             (snd (CheckAction ACTION_START_TELEMETRY (status_and_copy K0
                (arrive quiet_tick (execute K0 H0 both_reel_commands
                   ((fresh K0)\<lparr>inst_substate := FL_MEASURE K0\<rparr>))))))))) \<and>
   inst_substate (FlightMode K0 H0 (arrive telemetry_tick (execute K0 H0 both_reel_commands
      ((fresh K0)\<lparr>inst_substate := FL_MEASURE K0\<rparr>)))) = FL_SEND_TELEMETRY K0 \<and>
   inst_substate (arrive quiet_tick (execute K0 H0 (both_reel_commands @ [Tick telemetry_tick])
      ((fresh K0)\<lparr>inst_substate := FL_MEASURE K0\<rparr>))) = FL_SEND_TELEMETRY K0 \<and>
   inst_substate (FlightMode K0 H0 (arrive quiet_tick
      (execute K0 H0 (both_reel_commands @ [Tick telemetry_tick])
         ((fresh K0)\<lparr>inst_substate := FL_MEASURE K0\<rparr>)))) = FL_MEASURE K0"
proof -
  let ?s0 = "(fresh K0)\<lparr>inst_substate := FL_MEASURE K0\<rparr>"
  let ?b = "execute K0 H0 both_reel_commands ?s0"
  let ?s1 = "arrive quiet_tick ?b"
  let ?s2 = "arrive telemetry_tick ?b"
  let ?s3 = "arrive quiet_tick (execute K0 H0 (both_reel_commands @ [Tick telemetry_tick]) ?s0)"
  have hooks: "hooks_do_not_raise_REEL_OUT H0"
    by (simp add: hooks_do_not_raise_REEL_OUT_def H0_def)
  have sched: "\<forall>e\<in>set both_reel_commands. no_scheduled_REEL_OUT e"
    "\<forall>e\<in>set (both_reel_commands @ [Tick telemetry_tick]). no_scheduled_REEL_OUT e"
    "ACTION_REEL_OUT \<notin> set (fired quiet_tick)"
    by (simp_all add: both_reel_commands_def quiet_tick_def telemetry_tick_def)
  have start: "\<not> raised (action_flags ?s0 ACTION_REEL_OUT)"
    by (simp add: fresh_def)
  have b: "inst_substate ?b = FL_MEASURE K0"
    "action_flags ?b ACTION_REEL_OUT = \<lparr>raised = True, stale_counter = FLAG_STALE\<rparr>"
    "action_flags ?b ACTION_REEL_IN = \<lparr>raised = True, stale_counter = FLAG_STALE\<rparr>"
    "action_flags ?b ACTION_START_TELEMETRY = \<lparr>raised = False, stale_counter = 0\<rparr>"
    "action_flags ?b ACTION_SEND_STATUS = \<lparr>raised = False, stale_counter = 0\<rparr>"
    by (simp_all add: both_reel_commands_def TCHandler_def TC_switch_def TC_summary_def Let_def
        SetAction_def out_defs fresh_def)
  have s1: "inst_substate ?s1 = FL_MEASURE K0" "raised (action_flags ?s1 ACTION_REEL_OUT)"
    "raised (action_flags ?s1 ACTION_REEL_IN)" "\<not> raised (action_flags ?s1 ACTION_START_TELEMETRY)"
    using b by (simp_all add: arrive_other quiet_tick_def)
  have s2: "inst_substate ?s2 = FL_MEASURE K0" "raised (action_flags ?s2 ACTION_START_TELEMETRY)"
    using b by (simp_all add: arrive_raised telemetry_tick_def)
  have tick: "execute K0 H0 (both_reel_commands @ [Tick telemetry_tick]) ?s0 =
      WatchFlags (FlightMode K0 H0 ?s2)"
    by (simp add: both_reel_commands_def loop_tick_def)
  have after: "inst_substate (FlightMode K0 H0 ?s2) = FL_SEND_TELEMETRY K0"
    "action_flags (FlightMode K0 H0 ?s2) ACTION_REEL_OUT = \<lparr>raised = True, stale_counter = FLAG_STALE\<rparr>"
    "action_flags (FlightMode K0 H0 ?s2) ACTION_REEL_IN = \<lparr>raised = True, stale_counter = FLAG_STALE\<rparr>"
    using s2 b
    by (simp_all add: FlightMode_MEASURE CheckAction_def out_defs arrive_other telemetry_tick_def)
  have s3: "inst_substate ?s3 = FL_SEND_TELEMETRY K0" "raised (action_flags ?s3 ACTION_REEL_OUT)"
    "raised (action_flags ?s3 ACTION_REEL_IN)"
    unfolding tick using after
    by (simp_all add: arrive_other quiet_tick_def WatchFlags_def decay_def FLAG_STALE_def)
  note one = REEL_OUT_wins_when_both_flags_are_up [OF hooks sched(1,3) start refl s1(2,3), of ?s2]
  note two = REEL_OUT_wins_when_both_flags_are_up [OF hooks sched(2,3) start refl s3(2,3), of ?s2]
  from one s1(1,4) have out: "FlightMode K0 H0 ?s1 =
     log_line LOG_DEBUG [Txt ''FL Measure'']
       (manual_command K0 H0 ''Reel out manual command'' MOTION_REEL_OUT
          (snd (CheckAction ACTION_REEL_OUT
             (snd (CheckAction ACTION_START_TELEMETRY (status_and_copy K0 ?s1))))))"
    by blast
  from one s2 have first: "inst_substate (FlightMode K0 H0 ?s2) = FL_SEND_TELEMETRY K0"
    by blast
  from two s3(1) have home: "inst_substate (FlightMode K0 H0 ?s3) = FL_MEASURE K0"
    by blast
  show ?thesis
    using s1(1) out first s3(1) home by (intro conjI)
qed

text \<open>
  C10. On a tick in \<^verbatim>\<open>FL_MEASURE\<close> with \<^verbatim>\<open>ACTION_START_TELEMETRY\<close> up, the switch
  lowers that flag, sets the sub-state to \<^verbatim>\<open>FL_SEND_TELEMETRY\<close>, writes one log line
  and does nothing else: the reel flags are neither tested nor lowered, no motion hook
  is called, and the motion state, the MCB output and the schedule are those the status
  check left. On the tick in \<^verbatim>\<open>FL_ENTRY\<close> the machine schedules \<^verbatim>\<open>ACTION_SEND_STATUS\<close> in
  1 second, \<^verbatim>\<open>ACTION_SIM_LORA_MSG\<close> in 30 seconds and \<^verbatim>\<open>ACTION_GPS_WAIT_MSG\<close> in 5
  seconds, in this order, and is in \<^verbatim>\<open>FL_GPS_WAIT\<close> when the tick ends.
\<close>

theorem START_TELEMETRY_frame_and_ENTRY_schedule:
  "(inst_substate s = FL_MEASURE K \<and> raised (action_flags s ACTION_START_TELEMETRY) \<longrightarrow>
      FlightMode K H s =
        log_line LOG_NOMINAL [Txt ''Entering FL_SEND_TELEMETRY'']
          ((snd (CheckAction ACTION_START_TELEMETRY (status_and_copy K s)))
             \<lparr>inst_substate := FL_SEND_TELEMETRY K\<rparr>) \<and>
      inst_substate (FlightMode K H s) = FL_SEND_TELEMETRY K \<and>
      action_flags (FlightMode K H s) ACTION_REEL_OUT = action_flags s ACTION_REEL_OUT \<and>
      action_flags (FlightMode K H s) ACTION_REEL_IN = action_flags s ACTION_REEL_IN \<and>
      mcb_motion (FlightMode K H s) = mcb_motion s \<and>
      mcb_motion_ongoing (FlightMode K H s) = mcb_motion_ongoing s \<and>
      mcb_out (FlightMode K H s) = mcb_out s \<and>
      scheduled (FlightMode K H s) = scheduled (status_and_copy K s)) \<and>
   (inst_substate t = FL_ENTRY K \<longrightarrow>
      scheduled (FlightMode K H t) =
        scheduled (status_and_copy K t) @
          [(ACTION_SEND_STATUS, 1), (ACTION_SIM_LORA_MSG, 30), (ACTION_GPS_WAIT_MSG, 5)] \<and>
      inst_substate (FlightMode K H t) = FL_GPS_WAIT K)"
  by (simp add: FlightMode_MEASURE FlightMode_ENTRY CheckAction_def out_defs)

theorem START_TELEMETRY_frame_and_ENTRY_schedule_witness:
  "inst_substate (FlightMode K0 H0
     (SetAction ACTION_START_TELEMETRY (SetAction ACTION_REEL_IN (SetAction ACTION_REEL_OUT
        ((fresh K0)\<lparr>inst_substate := FL_MEASURE K0\<rparr>))))) = FL_SEND_TELEMETRY K0 \<and>
   raised (action_flags (FlightMode K0 H0
     (SetAction ACTION_START_TELEMETRY (SetAction ACTION_REEL_IN (SetAction ACTION_REEL_OUT
        ((fresh K0)\<lparr>inst_substate := FL_MEASURE K0\<rparr>))))) ACTION_REEL_OUT) \<and>
   raised (action_flags (FlightMode K0 H0
     (SetAction ACTION_START_TELEMETRY (SetAction ACTION_REEL_IN (SetAction ACTION_REEL_OUT
        ((fresh K0)\<lparr>inst_substate := FL_MEASURE K0\<rparr>))))) ACTION_REEL_IN) \<and>
   mcb_motion (FlightMode K0 H0
     (SetAction ACTION_START_TELEMETRY (SetAction ACTION_REEL_IN (SetAction ACTION_REEL_OUT
        ((fresh K0)\<lparr>inst_substate := FL_MEASURE K0\<rparr>))))) = NO_MOTION \<and>
   scheduled (FlightMode K0 H0 (fresh K0)) =
     [(ACTION_SEND_STATUS, 1), (ACTION_SIM_LORA_MSG, 30), (ACTION_GPS_WAIT_MSG, 5)] \<and>
   inst_substate (FlightMode K0 H0 (fresh K0)) = FL_GPS_WAIT K0"
proof -
  let ?s = "SetAction ACTION_START_TELEMETRY (SetAction ACTION_REEL_IN (SetAction ACTION_REEL_OUT
        ((fresh K0)\<lparr>inst_substate := FL_MEASURE K0\<rparr>)))"
  note tick = START_TELEMETRY_frame_and_ENTRY_schedule [of ?s K0 H0 "fresh K0"]
  have measure: "inst_substate ?s = FL_MEASURE K0 \<and> raised (action_flags ?s ACTION_START_TELEMETRY)"
    by (simp add: SetAction_def fresh_def)
  have entry: "inst_substate (fresh K0) = FL_ENTRY K0"
    by (simp add: fresh_def FL_ENTRY_def)
  have before: "raised (action_flags ?s ACTION_REEL_OUT)" "raised (action_flags ?s ACTION_REEL_IN)"
    "mcb_motion ?s = NO_MOTION" "scheduled (status_and_copy K0 (fresh K0)) = []"
    by (simp_all add: SetAction_def fresh_def sc_scheduled)
  from tick measure have after:
    "inst_substate (FlightMode K0 H0 ?s) = FL_SEND_TELEMETRY K0"
    "action_flags (FlightMode K0 H0 ?s) ACTION_REEL_OUT = action_flags ?s ACTION_REEL_OUT"
    "action_flags (FlightMode K0 H0 ?s) ACTION_REEL_IN = action_flags ?s ACTION_REEL_IN"
    "mcb_motion (FlightMode K0 H0 ?s) = mcb_motion ?s"
    by blast+
  from tick entry have first:
    "scheduled (FlightMode K0 H0 (fresh K0)) =
       scheduled (status_and_copy K0 (fresh K0)) @
         [(ACTION_SEND_STATUS, 1), (ACTION_SIM_LORA_MSG, 30), (ACTION_GPS_WAIT_MSG, 5)]"
    "inst_substate (FlightMode K0 H0 (fresh K0)) = FL_GPS_WAIT K0"
    by blast+
  show ?thesis
    by (simp only: after first before append_Nil simp_thms)
qed

end
